theory Spec2Isabelle
  imports Complex_Main "HOL-Library.Multiset"
begin

section \<open>Fixed-wing parameters of rotors\_gazebo\_plugins (fw\_parameters.h)\<close>

text \<open>
  The header declares the Techpod default constants, the readers \<^verbatim>\<open>YAMLReadParam\<close> and
  \<^verbatim>\<open>YAMLReadEigenVector\<close>, and the structs \<^verbatim>\<open>ControlSurface\<close>,
  \<^verbatim>\<open>FWAerodynamicParameters\<close> (with its member \<^verbatim>\<open>LoadAeroParamsYAML\<close>) and
  \<^verbatim>\<open>FWParameters\<close>.

  A \<^verbatim>\<open>double\<close> is only stored and copied by this code, never computed with after
  construction, so the structs are polymorphic in the type \<open>'d\<close> of the stored values; the
  defaults instantiate it with \<open>real\<close>, a decimal literal standing for the double it denotes
  and \<open>pi\<close> for \<^verbatim>\<open>M_PI\<close>. An \<^verbatim>\<open>int\<close> channel is an \<open>int\<close>: no arithmetic is done on it.
  The members of \<^verbatim>\<open>FWParameters\<close> lose their trailing underscore, which the logic does not
  accept in a name.
\<close>

subsection \<open>Eigen vectors and matrices of fixed size\<close>

type_synonym 'd Vector2d = "'d \<times> 'd"
type_synonym 'd Vector3d = "'d \<times> 'd \<times> 'd"
type_synonym 'd Vector4d = "'d \<times> 'd \<times> 'd \<times> 'd"

text \<open>A 3x3 matrix is the triple of its rows.\<close>

type_synonym 'd Matrix3d = "'d Vector3d \<times> 'd Vector3d \<times> 'd Vector3d"

fun vcoeff :: "'d Vector3d \<Rightarrow> nat \<Rightarrow> 'd" where
  "vcoeff (a, b, c) i = (if i = 0 then a else if i = 1 then b else c)"

fun coeff :: "'d Matrix3d \<Rightarrow> nat \<Rightarrow> nat \<Rightarrow> 'd" where
  "coeff (r0, r1, r2) i j = vcoeff (if i = 0 then r0 else if i = 1 then r1 else r2) j"

text \<open>
  The template argument \<^verbatim>\<open>Derived\<close> of \<^verbatim>\<open>YAMLReadEigenVector\<close> is the type of the
  target field. What the reader uses of it is \<^verbatim>\<open>Derived::SizeAtCompileTime\<close> and
  \<^verbatim>\<open>Eigen::Map<Derived>(&vec[0], vec.size())\<close>, which reads that many doubles from the
  start of the buffer.
\<close>

type_synonym ('d, 'v) derived = "nat \<times> ('d list \<Rightarrow> 'v)"

definition Vector2d_t :: "('d, 'd Vector2d) derived" where
  "Vector2d_t = (2, \<lambda>vec. (vec ! 0, vec ! 1))"

definition Vector3d_t :: "('d, 'd Vector3d) derived" where
  "Vector3d_t = (3, \<lambda>vec. (vec ! 0, vec ! 1, vec ! 2))"

definition Vector4d_t :: "('d, 'd Vector4d) derived" where
  "Vector4d_t = (4, \<lambda>vec. (vec ! 0, vec ! 1, vec ! 2, vec ! 3))"

subsection \<open>Default constants (Techpod model)\<close>

definition kDefaultMass :: real where "kDefaultMass = 2.65"
definition kDefaultWingSpan :: real where "kDefaultWingSpan = 2.59"
definition kDefaultWingSurface :: real where "kDefaultWingSurface = 0.47"
definition kDefaultChordLength :: real where "kDefaultChordLength = 0.18"

definition kDefaultInertiaXx :: real where "kDefaultInertiaXx = 0.16632"
definition kDefaultInertiaXy :: real where "kDefaultInertiaXy = 0.0"
definition kDefaultInertiaXz :: real where "kDefaultInertiaXz = 0.0755"
definition kDefaultInertiaYy :: real where "kDefaultInertiaYy = 0.3899"
definition kDefaultInertiaYz :: real where "kDefaultInertiaYz = 0.0"
definition kDefaultInertiaZz :: real where "kDefaultInertiaZz = 0.5243"

definition kDefaultAlphaMax :: real where "kDefaultAlphaMax = 0.27"
definition kDefaultAlphaMin :: real where "kDefaultAlphaMin = - 0.27"

definition kDefaultCDragAlpha :: "real Vector3d" where
  "kDefaultCDragAlpha = (0.1360, - 0.6737, 5.4546)"
definition kDefaultCDragBeta :: "real Vector3d" where
  "kDefaultCDragBeta = (0.0195, 0.0, - 0.3842)"
definition kDefaultCDragDeltaAil :: "real Vector3d" where
  "kDefaultCDragDeltaAil = (0.0195, 1.4205 / 10 ^ 4, 7.5037 / 10 ^ 6)"
definition kDefaultCDragDeltaFlp :: "real Vector3d" where
  "kDefaultCDragDeltaFlp = (0.0195, 2.7395 / 10 ^ 4, 1.23 / 10 ^ 5)"

definition kDefaultCSideForceBeta :: "real Vector2d" where
  "kDefaultCSideForceBeta = (0.0, - 0.3073)"

definition kDefaultCLiftAlpha :: "real Vector4d" where
  "kDefaultCLiftAlpha = (0.2127, 10.8060, - 46.8324, 60.6017)"
definition kDefaultCLiftDeltaAil :: "real Vector2d" where
  "kDefaultCLiftDeltaAil = (0.3304, 0.0048)"
definition kDefaultCLiftDeltaFlp :: "real Vector2d" where
  "kDefaultCLiftDeltaFlp = (0.3304, 0.0073)"

definition kDefaultCRollMomentBeta :: "real Vector2d" where
  "kDefaultCRollMomentBeta = (0.0, - 0.0154)"
definition kDefaultCRollMomentP :: "real Vector2d" where
  "kDefaultCRollMomentP = (0.0, - 0.1647)"
definition kDefaultCRollMomentR :: "real Vector2d" where
  "kDefaultCRollMomentR = (0.0, 0.0117)"
definition kDefaultCRollMomentDeltaAil :: "real Vector2d" where
  "kDefaultCRollMomentDeltaAil = (0.0, 0.0570)"
definition kDefaultCRollMomentDeltaFlp :: "real Vector2d" where
  "kDefaultCRollMomentDeltaFlp = (0.0, 0.001)"

definition kDefaultCPitchMomentAlpha :: "real Vector2d" where
  "kDefaultCPitchMomentAlpha = (0.0435, - 2.9690)"
definition kDefaultCPitchMomentQ :: "real Vector2d" where
  "kDefaultCPitchMomentQ = (- 0.1173, - 106.1541)"
definition kDefaultCPitchMomentDeltaElv :: "real Vector2d" where
  "kDefaultCPitchMomentDeltaElv = (- 0.1173, - 6.1308)"

definition kDefaultCYawMomentBeta :: "real Vector2d" where
  "kDefaultCYawMomentBeta = (0.0, 0.0430)"
definition kDefaultCYawMomentR :: "real Vector2d" where
  "kDefaultCYawMomentR = (0.0, - 0.0827)"
definition kDefaultCYawMomentDeltaRud :: "real Vector2d" where
  "kDefaultCYawMomentDeltaRud = (0.0, 0.06)"

definition kDefaultCThrust :: "real Vector3d" where
  "kDefaultCThrust = (0.0, 14.7217, 0.0)"

definition kDefaultControlSurfaceDeflectionMin :: real where
  "kDefaultControlSurfaceDeflectionMin = - 20.0 * pi / 180.0"
definition kDefaultControlSurfaceDeflectionMax :: real where
  "kDefaultControlSurfaceDeflectionMax = 20.0 * pi / 180.0"

definition kDefaultThrottleChannel :: int where "kDefaultThrottleChannel = 5"
definition kDefaultAileronLeftChannel :: int where "kDefaultAileronLeftChannel = 4"
definition kDefaultAileronRightChannel :: int where "kDefaultAileronRightChannel = 0"
definition kDefaultElevatorChannel :: int where "kDefaultElevatorChannel = 1"
definition kDefaultFlapChannel :: int where "kDefaultFlapChannel = 2"
definition kDefaultRudderChannel :: int where "kDefaultRudderChannel = 3"

subsection \<open>The structs\<close>

record 'd ControlSurface =
  channel :: int
  deflection_min :: 'd
  deflection_max :: 'd

text \<open>
  The constructor \<^verbatim>\<open>ControlSurface(cs_channel, defl_min, defl_max)\<close> stores its three
  arguments; it checks nothing. The last two arguments have the default deflections as
  default values: \<open>ControlSurface_dflt\<close> is the call with the channel alone.
\<close>

definition ControlSurface_init :: "int \<Rightarrow> 'd \<Rightarrow> 'd \<Rightarrow> 'd ControlSurface" where
  "ControlSurface_init cs_channel defl_min defl_max =
     \<lparr>channel = cs_channel, deflection_min = defl_min, deflection_max = defl_max\<rparr>"

definition ControlSurface_dflt :: "int \<Rightarrow> real ControlSurface" where
  "ControlSurface_dflt cs_channel =
     ControlSurface_init cs_channel
       kDefaultControlSurfaceDeflectionMin kDefaultControlSurfaceDeflectionMax"

record 'd FWAerodynamicParameters =
  alpha_max :: 'd
  alpha_min :: 'd
  c_drag_alpha :: "'d Vector3d"
  c_drag_beta :: "'d Vector3d"
  c_drag_delta_ail :: "'d Vector3d"
  c_drag_delta_flp :: "'d Vector3d"
  c_side_force_beta :: "'d Vector2d"
  c_lift_alpha :: "'d Vector4d"
  c_lift_delta_ail :: "'d Vector2d"
  c_lift_delta_flp :: "'d Vector2d"
  c_roll_moment_beta :: "'d Vector2d"
  c_roll_moment_p :: "'d Vector2d"
  c_roll_moment_r :: "'d Vector2d"
  c_roll_moment_delta_ail :: "'d Vector2d"
  c_roll_moment_delta_flp :: "'d Vector2d"
  c_pitch_moment_alpha :: "'d Vector2d"
  c_pitch_moment_q :: "'d Vector2d"
  c_pitch_moment_delta_elv :: "'d Vector2d"
  c_yaw_moment_beta :: "'d Vector2d"
  c_yaw_moment_r :: "'d Vector2d"
  c_yaw_moment_delta_rud :: "'d Vector2d"
  c_thrust :: "'d Vector3d"

definition FWAerodynamicParameters_init :: "real FWAerodynamicParameters" where
  "FWAerodynamicParameters_init =
     \<lparr>alpha_max = kDefaultAlphaMax,
      alpha_min = kDefaultAlphaMin,
      c_drag_alpha = kDefaultCDragAlpha,
      c_drag_beta = kDefaultCDragBeta,
      c_drag_delta_ail = kDefaultCDragDeltaAil,
      c_drag_delta_flp = kDefaultCDragDeltaFlp,
      c_side_force_beta = kDefaultCSideForceBeta,
      c_lift_alpha = kDefaultCLiftAlpha,
      c_lift_delta_ail = kDefaultCLiftDeltaAil,
      c_lift_delta_flp = kDefaultCLiftDeltaFlp,
      c_roll_moment_beta = kDefaultCRollMomentBeta,
      c_roll_moment_p = kDefaultCRollMomentP,
      c_roll_moment_r = kDefaultCRollMomentR,
      c_roll_moment_delta_ail = kDefaultCRollMomentDeltaAil,
      c_roll_moment_delta_flp = kDefaultCRollMomentDeltaFlp,
      c_pitch_moment_alpha = kDefaultCPitchMomentAlpha,
      c_pitch_moment_q = kDefaultCPitchMomentQ,
      c_pitch_moment_delta_elv = kDefaultCPitchMomentDeltaElv,
      c_yaw_moment_beta = kDefaultCYawMomentBeta,
      c_yaw_moment_r = kDefaultCYawMomentR,
      c_yaw_moment_delta_rud = kDefaultCYawMomentDeltaRud,
      c_thrust = kDefaultCThrust\<rparr>"

record 'd FWParameters =
  mass :: 'd
  wing_span :: 'd
  wing_surface :: 'd
  chord_length :: 'd
  throttle_channel :: int
  inertia :: "'d Matrix3d"
  aileron_left :: "'d ControlSurface"
  aileron_right :: "'d ControlSurface"
  elevator :: "'d ControlSurface"
  flap :: "'d ControlSurface"
  rudder :: "'d ControlSurface"
  aero_params :: "'d FWAerodynamicParameters"

text \<open>
  The constructor of \<^verbatim>\<open>FWParameters\<close>: the member initialisers, the comma initialiser
  of \<^verbatim>\<open>inertia_\<close> (row by row) and the default constructor of \<^verbatim>\<open>aero_params_\<close>.
\<close>

definition FWParameters_init :: "real FWParameters" where
  "FWParameters_init =
     \<lparr>mass = kDefaultMass,
      wing_span = kDefaultWingSpan,
      wing_surface = kDefaultWingSurface,
      chord_length = kDefaultChordLength,
      throttle_channel = kDefaultThrottleChannel,
      inertia =
        ((kDefaultInertiaXx, kDefaultInertiaXy, kDefaultInertiaXz),
         (kDefaultInertiaXy, kDefaultInertiaYy, kDefaultInertiaYz),
         (kDefaultInertiaXz, kDefaultInertiaYz, kDefaultInertiaZz)),
      aileron_left = ControlSurface_dflt kDefaultAileronLeftChannel,
      aileron_right = ControlSurface_dflt kDefaultAileronRightChannel,
      elevator = ControlSurface_dflt kDefaultElevatorChannel,
      flap = ControlSurface_dflt kDefaultFlapChannel,
      rudder = ControlSurface_dflt kDefaultRudderChannel,
      aero_params = FWAerodynamicParameters_init\<rparr>"

subsection \<open>The YAML document and the calls into yaml-cpp\<close>

text \<open>
  yaml-cpp is a library outside this repository. The header uses three of its operations:
  \<^verbatim>\<open>YAML::LoadFile\<close>, the subscript \<^verbatim>\<open>node[name]\<close> on a \<^verbatim>\<open>const YAML::Node&\<close>, and
  the conversion \<^verbatim>\<open>as<T>()\<close> without a fallback value. They are modelled with the
  behaviour the library documents:
  \<^item> \<^verbatim>\<open>LoadFile\<close> throws \<^verbatim>\<open>BadFile\<close> when the file cannot be opened and
    \<^verbatim>\<open>ParserException\<close> when its text is not YAML; otherwise it returns the root node;
  \<^item> the const subscript with a string key throws \<^verbatim>\<open>BadSubscript\<close> on a scalar, finds the
    first pair of a map whose key is a scalar equal to the string, and in every other case
    returns an invalid node;
  \<^item> \<^verbatim>\<open>as<T>()\<close> throws \<^verbatim>\<open>InvalidNode\<close> on an invalid node and \<^verbatim>\<open>BadConversion\<close> when
    the node is not of the shape of \<open>T\<close>: for \<^verbatim>\<open>double\<close> a scalar whose text converts, for
    \<^verbatim>\<open>std::vector<double>\<close> a sequence of which each element converts.
  Releases of the library before 0.6 return an undefined node for a key that is not there,
  on which \<^verbatim>\<open>as<T>()\<close> throws \<^verbatim>\<open>BadConversion\<close> where the later ones throw
  \<^verbatim>\<open>InvalidNode\<close>: an exception in both, out of the same call.
  The text-to-double conversion of the library is a parameter \<open>dec\<close>, and the file system
  as the parser sees it is a parameter \<open>fs\<close>.
\<close>

datatype yaml = Null | Scalar string | Sequence "yaml list" | Map "(yaml \<times> yaml) list"

datatype file_state = NoSuchFile | Malformed | Document yaml

datatype error = BadFile | ParserException | BadSubscript | InvalidNode | BadConversion

definition LoadFile :: "(string \<Rightarrow> file_state) \<Rightarrow> string \<Rightarrow> error + yaml" where
  "LoadFile fs path =
     (case fs path of
        NoSuchFile \<Rightarrow> Inl BadFile
      | Malformed \<Rightarrow> Inl ParserException
      | Document node \<Rightarrow> Inr node)"

fun equals :: "yaml \<Rightarrow> string \<Rightarrow> bool" where
  "equals (Scalar s) name = (s = name)"
| "equals _ name = False"

fun get :: "(yaml \<times> yaml) list \<Rightarrow> string \<Rightarrow> yaml option" where
  "get [] name = None"
| "get ((k, v) # m) name = (if equals k name then Some v else get m name)"

text \<open>The const subscript; \<open>None\<close> is the invalid node.\<close>

fun subscript :: "yaml \<Rightarrow> string \<Rightarrow> error + yaml option" where
  "subscript (Scalar s) name = Inl BadSubscript"
| "subscript (Map m) name = Inr (get m name)"
| "subscript Null name = Inr None"
| "subscript (Sequence xs) name = Inr None"

fun convert_double :: "(string \<Rightarrow> 'd option) \<Rightarrow> yaml \<Rightarrow> error + 'd" where
  "convert_double dec (Scalar s) =
     (case dec s of None \<Rightarrow> Inl BadConversion | Some v \<Rightarrow> Inr v)"
| "convert_double dec _ = Inl BadConversion"

fun as_double :: "(string \<Rightarrow> 'd option) \<Rightarrow> yaml option \<Rightarrow> error + 'd" where
  "as_double dec None = Inl InvalidNode"
| "as_double dec (Some n) = convert_double dec n"

fun convert_elements :: "(string \<Rightarrow> 'd option) \<Rightarrow> yaml list \<Rightarrow> error + 'd list" where
  "convert_elements dec [] = Inr []"
| "convert_elements dec (x # xs) =
     (case convert_double dec x of
        Inl e \<Rightarrow> Inl e
      | Inr v \<Rightarrow> (case convert_elements dec xs of Inl e \<Rightarrow> Inl e | Inr vs \<Rightarrow> Inr (v # vs)))"

fun as_vector :: "(string \<Rightarrow> 'd option) \<Rightarrow> yaml option \<Rightarrow> error + 'd list" where
  "as_vector dec None = Inl InvalidNode"
| "as_vector dec (Some (Sequence xs)) = convert_elements dec xs"
| "as_vector dec (Some _) = Inl BadConversion"

subsection \<open>Statements\<close>

text \<open>
  A statement runs on the object it mutates and ends in one of four ways: it completes
  (\<open>Normal\<close>); it throws an exception of yaml-cpp, which leaves the function and reaches
  the caller (\<open>Throws\<close>); a failed \<^verbatim>\<open>assert\<close> aborts the process, and no caller sees
  anything (\<open>Aborts\<close>); or it reads memory outside an array, after which C++ promises
  nothing (\<open>Undefined\<close>). The object is returned with the writes made so far, which a
  C++ exception leaves in place; after \<open>Aborts\<close> and \<open>Undefined\<close> it is the object as
  the statement found it, which nobody can look at.

  \<^verbatim>\<open>assert\<close> is compiled in or out by the macro \<^verbatim>\<open>NDEBUG\<close>, which the build sets and
  the header does not: the statements take it as the parameter \<open>NDEBUG\<close>, true when the
  macro is defined and the assertions are compiled out.
\<close>

datatype outcome = Normal | Throws error | Aborts | Undefined

type_synonym 's stmt = "'s \<Rightarrow> outcome \<times> 's"

fun seq :: "'s stmt list \<Rightarrow> 's stmt" where
  "seq [] s = (Normal, s)"
| "seq (c # cs) s =
     (case c s of (Normal, s') \<Rightarrow> seq cs s' | (r, s') \<Rightarrow> (r, s'))"

text \<open>
  \<^verbatim>\<open>YAMLReadParam(node, name, value)\<close> is \<^verbatim>\<open>value = node[name].as<T>()\<close>; the reference
  \<^verbatim>\<open>value\<close> is the update function of the field it refers to. The right-hand side is
  evaluated first, so a throw leaves the field as it was.
\<close>

definition YAMLReadParam ::
  "(string \<Rightarrow> 'd option) \<Rightarrow> yaml \<Rightarrow> string \<Rightarrow> (('d \<Rightarrow> 'd) \<Rightarrow> 's \<Rightarrow> 's) \<Rightarrow> 's stmt" where
  "YAMLReadParam dec node name value s =
     (case subscript node name of
        Inl e \<Rightarrow> (Throws e, s)
      | Inr n \<Rightarrow>
          (case as_double dec n of
             Inl e \<Rightarrow> (Throws e, s)
           | Inr v \<Rightarrow> (Normal, value (\<lambda>_. v) s)))"

text \<open>
  \<^verbatim>\<open>YAMLReadEigenVector(node, name, value)\<close>: convert to a \<^verbatim>\<open>std::vector\<close>; assert that
  its size is \<^verbatim>\<open>Derived::SizeAtCompileTime\<close>; assign \<^verbatim>\<open>Eigen::Map<Derived>(&vec[0],
  vec.size())\<close>. With the assertion compiled in, a vector of another size aborts the
  process. With the assertion compiled out nothing compares the sizes (the check inside
  Eigen is an assertion too): the map reads \<^verbatim>\<open>SizeAtCompileTime\<close> doubles from the start
  of the buffer, which are the first components of a vector that is too long, and which
  run past the end of the buffer of a vector that is too short.
\<close>

definition YAMLReadEigenVector ::
  "bool \<Rightarrow> (string \<Rightarrow> 'd option) \<Rightarrow> yaml \<Rightarrow> string \<Rightarrow> ('d, 'v) derived \<Rightarrow>
     (('v \<Rightarrow> 'v) \<Rightarrow> 's \<Rightarrow> 's) \<Rightarrow> 's stmt" where
  "YAMLReadEigenVector NDEBUG dec node name Derived value s =
     (case subscript node name of
        Inl e \<Rightarrow> (Throws e, s)
      | Inr n \<Rightarrow>
          (case as_vector dec n of
             Inl e \<Rightarrow> (Throws e, s)
           | Inr vec \<Rightarrow>
               if \<not> NDEBUG \<and> length vec \<noteq> fst Derived then (Aborts, s)
               else if length vec < fst Derived then (Undefined, s)
               else (Normal, value (\<lambda>_. snd Derived vec) s)))"

text \<open>
  The body of \<^verbatim>\<open>LoadAeroParamsYAML\<close> after the file is loaded: the 22 macro calls
  \<^verbatim>\<open>READ_PARAM(node, item)\<close> and \<^verbatim>\<open>READ_EIGEN_VECTOR(node, item)\<close>, in the order of the
  source. The macro passes the name of the field as the key and the field as the target.
\<close>

definition READ_statements ::
  "bool \<Rightarrow> (string \<Rightarrow> 'd option) \<Rightarrow> yaml \<Rightarrow> 'd FWAerodynamicParameters stmt list" where
  "READ_statements NDEBUG dec node =
     [YAMLReadParam dec node ''alpha_max'' alpha_max_update,
      YAMLReadParam dec node ''alpha_min'' alpha_min_update,
      YAMLReadEigenVector NDEBUG dec node ''c_drag_alpha'' Vector3d_t c_drag_alpha_update,
      YAMLReadEigenVector NDEBUG dec node ''c_drag_beta'' Vector3d_t c_drag_beta_update,
      YAMLReadEigenVector NDEBUG dec node ''c_drag_delta_ail'' Vector3d_t
        c_drag_delta_ail_update,
      YAMLReadEigenVector NDEBUG dec node ''c_drag_delta_flp'' Vector3d_t
        c_drag_delta_flp_update,
      YAMLReadEigenVector NDEBUG dec node ''c_side_force_beta'' Vector2d_t
        c_side_force_beta_update,
      YAMLReadEigenVector NDEBUG dec node ''c_lift_alpha'' Vector4d_t c_lift_alpha_update,
      YAMLReadEigenVector NDEBUG dec node ''c_lift_delta_ail'' Vector2d_t
        c_lift_delta_ail_update,
      YAMLReadEigenVector NDEBUG dec node ''c_lift_delta_flp'' Vector2d_t
        c_lift_delta_flp_update,
      YAMLReadEigenVector NDEBUG dec node ''c_roll_moment_beta'' Vector2d_t
        c_roll_moment_beta_update,
      YAMLReadEigenVector NDEBUG dec node ''c_roll_moment_p'' Vector2d_t
        c_roll_moment_p_update,
      YAMLReadEigenVector NDEBUG dec node ''c_roll_moment_r'' Vector2d_t
        c_roll_moment_r_update,
      YAMLReadEigenVector NDEBUG dec node ''c_roll_moment_delta_ail'' Vector2d_t
        c_roll_moment_delta_ail_update,
      YAMLReadEigenVector NDEBUG dec node ''c_roll_moment_delta_flp'' Vector2d_t
        c_roll_moment_delta_flp_update,
      YAMLReadEigenVector NDEBUG dec node ''c_pitch_moment_alpha'' Vector2d_t
        c_pitch_moment_alpha_update,
      YAMLReadEigenVector NDEBUG dec node ''c_pitch_moment_q'' Vector2d_t
        c_pitch_moment_q_update,
      YAMLReadEigenVector NDEBUG dec node ''c_pitch_moment_delta_elv'' Vector2d_t
        c_pitch_moment_delta_elv_update,
      YAMLReadEigenVector NDEBUG dec node ''c_yaw_moment_beta'' Vector2d_t
        c_yaw_moment_beta_update,
      YAMLReadEigenVector NDEBUG dec node ''c_yaw_moment_r'' Vector2d_t c_yaw_moment_r_update,
      YAMLReadEigenVector NDEBUG dec node ''c_yaw_moment_delta_rud'' Vector2d_t
        c_yaw_moment_delta_rud_update,
      YAMLReadEigenVector NDEBUG dec node ''c_thrust'' Vector3d_t c_thrust_update]"

definition LoadAeroParamsYAML ::
  "bool \<Rightarrow> (string \<Rightarrow> file_state) \<Rightarrow> (string \<Rightarrow> 'd option) \<Rightarrow> string \<Rightarrow>
     'd FWAerodynamicParameters stmt" where
  "LoadAeroParamsYAML NDEBUG fs dec yaml_path this =
     (case LoadFile fs yaml_path of
        Inl e \<Rightarrow> (Throws e, this)
      | Inr node \<Rightarrow> seq (READ_statements NDEBUG dec node) this)"

text \<open>
  The load operation of the parameter store is the member call
  \<^verbatim>\<open>aero_params_.LoadAeroParamsYAML(path)\<close> on an \<^verbatim>\<open>FWParameters\<close> object: the method
  runs on the member, and the object holds the member as the method leaves it.
\<close>

definition loadAerodynamicParameters ::
  "bool \<Rightarrow> (string \<Rightarrow> file_state) \<Rightarrow> (string \<Rightarrow> 'd option) \<Rightarrow> string \<Rightarrow> 'd FWParameters stmt" where
  "loadAerodynamicParameters NDEBUG fs dec path store =
     (case LoadAeroParamsYAML NDEBUG fs dec path (aero_params store) of
        (r, a) \<Rightarrow> (r, store\<lparr>aero_params := a\<rparr>))"

subsection \<open>Observing the store and the document\<close>

text \<open>
  The keys of the 22 macro calls, in the order of the calls, each with the shape its target
  field gives it: a \<^verbatim>\<open>double\<close>, or an Eigen vector of 2, 3 or 4 components.
\<close>

datatype shape = ScalarKey | VectorKey nat

definition key_shapes :: "(string \<times> shape) list" where
  "key_shapes =
     [(''alpha_max'', ScalarKey),
      (''alpha_min'', ScalarKey),
      (''c_drag_alpha'', VectorKey 3),
      (''c_drag_beta'', VectorKey 3),
      (''c_drag_delta_ail'', VectorKey 3),
      (''c_drag_delta_flp'', VectorKey 3),
      (''c_side_force_beta'', VectorKey 2),
      (''c_lift_alpha'', VectorKey 4),
      (''c_lift_delta_ail'', VectorKey 2),
      (''c_lift_delta_flp'', VectorKey 2),
      (''c_roll_moment_beta'', VectorKey 2),
      (''c_roll_moment_p'', VectorKey 2),
      (''c_roll_moment_r'', VectorKey 2),
      (''c_roll_moment_delta_ail'', VectorKey 2),
      (''c_roll_moment_delta_flp'', VectorKey 2),
      (''c_pitch_moment_alpha'', VectorKey 2),
      (''c_pitch_moment_q'', VectorKey 2),
      (''c_pitch_moment_delta_elv'', VectorKey 2),
      (''c_yaw_moment_beta'', VectorKey 2),
      (''c_yaw_moment_r'', VectorKey 2),
      (''c_yaw_moment_delta_rud'', VectorKey 2),
      (''c_thrust'', VectorKey 3)]"

definition recognized_keys :: "string list" where
  "recognized_keys = map fst key_shapes"

definition key_shape :: "string \<Rightarrow> shape option" where
  "key_shape k = map_of key_shapes k"

text \<open>The components of the field that a key names, as a list; no components for any other name.\<close>

fun list2 :: "'d Vector2d \<Rightarrow> 'd list" where
  "list2 (a, b) = [a, b]"

fun list3 :: "'d Vector3d \<Rightarrow> 'd list" where
  "list3 (a, b, c) = [a, b, c]"

fun list4 :: "'d Vector4d \<Rightarrow> 'd list" where
  "list4 (a, b, c, d) = [a, b, c, d]"

definition field_values :: "'d FWAerodynamicParameters \<Rightarrow> string \<Rightarrow> 'd list" where
  "field_values p k =
     (if k = ''alpha_max'' then [alpha_max p]
      else if k = ''alpha_min'' then [alpha_min p]
      else if k = ''c_drag_alpha'' then list3 (c_drag_alpha p)
      else if k = ''c_drag_beta'' then list3 (c_drag_beta p)
      else if k = ''c_drag_delta_ail'' then list3 (c_drag_delta_ail p)
      else if k = ''c_drag_delta_flp'' then list3 (c_drag_delta_flp p)
      else if k = ''c_side_force_beta'' then list2 (c_side_force_beta p)
      else if k = ''c_lift_alpha'' then list4 (c_lift_alpha p)
      else if k = ''c_lift_delta_ail'' then list2 (c_lift_delta_ail p)
      else if k = ''c_lift_delta_flp'' then list2 (c_lift_delta_flp p)
      else if k = ''c_roll_moment_beta'' then list2 (c_roll_moment_beta p)
      else if k = ''c_roll_moment_p'' then list2 (c_roll_moment_p p)
      else if k = ''c_roll_moment_r'' then list2 (c_roll_moment_r p)
      else if k = ''c_roll_moment_delta_ail'' then list2 (c_roll_moment_delta_ail p)
      else if k = ''c_roll_moment_delta_flp'' then list2 (c_roll_moment_delta_flp p)
      else if k = ''c_pitch_moment_alpha'' then list2 (c_pitch_moment_alpha p)
      else if k = ''c_pitch_moment_q'' then list2 (c_pitch_moment_q p)
      else if k = ''c_pitch_moment_delta_elv'' then list2 (c_pitch_moment_delta_elv p)
      else if k = ''c_yaw_moment_beta'' then list2 (c_yaw_moment_beta p)
      else if k = ''c_yaw_moment_r'' then list2 (c_yaw_moment_r p)
      else if k = ''c_yaw_moment_delta_rud'' then list2 (c_yaw_moment_delta_rud p)
      else if k = ''c_thrust'' then list3 (c_thrust p)
      else [])"

text \<open>
  What a document supplies for a key: the decoded components, when the root is a map, the
  key is recognized and present (the first pair with that key counts) and its value has the
  key's shape, a scalar that decodes or a sequence of the right length of scalars that
  decode; \<open>None\<close> in every other case.
\<close>

fun scalar_value :: "(string \<Rightarrow> 'd option) \<Rightarrow> yaml \<Rightarrow> 'd option" where
  "scalar_value dec (Scalar s) = dec s"
| "scalar_value dec _ = None"

fun entry :: "yaml \<Rightarrow> string \<Rightarrow> yaml option" where
  "entry (Map m) k = get m k"
| "entry _ k = None"

fun shaped :: "(string \<Rightarrow> 'd option) \<Rightarrow> shape \<Rightarrow> yaml \<Rightarrow> 'd list option" where
  "shaped dec ScalarKey (Scalar s) = map_option (\<lambda>v. [v]) (dec s)"
| "shaped dec (VectorKey n) (Sequence xs) =
     (if length xs = n then those (map (scalar_value dec) xs) else None)"
| "shaped dec _ _ = None"

definition supplied :: "(string \<Rightarrow> 'd option) \<Rightarrow> yaml \<Rightarrow> string \<Rightarrow> 'd list option" where
  "supplied dec node k =
     (case (key_shape k, entry node k) of
        (Some sh, Some v) \<Rightarrow> shaped dec sh v
      | _ \<Rightarrow> None)"

text \<open>
  What a READ statement gets out of the document for its key, told from the document
  alone: the components it writes; the exception it throws, for a scalar root, a key that
  is not there, or a value that is not a number or a sequence of numbers; with the
  assertions compiled in, the abort on a sequence of another length than the field; with
  the assertions compiled out, the first components of a sequence that is too long, and
  the read past the end of one that is too short.
\<close>

datatype 'a reading = Written 'a | Thrown error | Abort | OutOfBounds

fun read_scalar :: "(string \<Rightarrow> 'd option) \<Rightarrow> yaml option \<Rightarrow> 'd list reading" where
  "read_scalar dec None = Thrown InvalidNode"
| "read_scalar dec (Some (Scalar s)) =
     (case dec s of None \<Rightarrow> Thrown BadConversion | Some v \<Rightarrow> Written [v])"
| "read_scalar dec (Some _) = Thrown BadConversion"

fun read_vector ::
  "bool \<Rightarrow> (string \<Rightarrow> 'd option) \<Rightarrow> nat \<Rightarrow> yaml option \<Rightarrow> 'd list reading" where
  "read_vector NDEBUG dec n None = Thrown InvalidNode"
| "read_vector NDEBUG dec n (Some (Sequence xs)) =
     (case those (map (scalar_value dec) xs) of
        None \<Rightarrow> Thrown BadConversion
      | Some vs \<Rightarrow>
          if length vs = n then Written vs
          else if \<not> NDEBUG then Abort
          else if length vs < n then OutOfBounds
          else Written (take n vs))"
| "read_vector NDEBUG dec n (Some _) = Thrown BadConversion"

fun is_scalar :: "yaml \<Rightarrow> bool" where
  "is_scalar (Scalar s) = True"
| "is_scalar _ = False"

definition reading :: "bool \<Rightarrow> (string \<Rightarrow> 'd option) \<Rightarrow> yaml \<Rightarrow> string \<Rightarrow> 'd list reading" where
  "reading NDEBUG dec node k =
     (if is_scalar node then Thrown BadSubscript
      else case key_shape k of
        None \<Rightarrow> Written []
      | Some ScalarKey \<Rightarrow> read_scalar dec (entry node k)
      | Some (VectorKey n) \<Rightarrow> read_vector NDEBUG dec n (entry node k))"

fun outcome_of :: "'a reading \<Rightarrow> outcome" where
  "outcome_of (Written vs) = Normal"
| "outcome_of (Thrown e) = Throws e"
| "outcome_of Abort = Aborts"
| "outcome_of OutOfBounds = Undefined"

text \<open>
  A statement acts on a key as a reading says: it completes, the field of the key holds the
  components written and no other field has changed; or it ends as the reading does, with
  the object as it was.
\<close>

definition acts ::
  "string \<Rightarrow> 'd list reading \<Rightarrow> 'd FWAerodynamicParameters stmt \<Rightarrow> bool" where
  "acts k r st =
     (case r of
        Written vs \<Rightarrow>
          \<forall>this. fst (st this) = Normal \<and> field_values (snd (st this)) k = vs
            \<and> (\<forall>k'. k' \<noteq> k \<longrightarrow> field_values (snd (st this)) k' = field_values this k')
      | _ \<Rightarrow> \<forall>this. st this = (outcome_of r, this))"

text \<open>
  A key is recognized when it is a scalar equal to one of the 22 names.
\<close>

definition recognized :: "yaml \<Rightarrow> bool" where
  "recognized key = list_ex (equals key) recognized_keys"

text \<open>
  Modelled from the spec: the two error kinds of the specification, as its section on
  error handling words them. The header declares no error type of its own; the exceptions
  of yaml-cpp leave \<^verbatim>\<open>LoadAeroParamsYAML\<close> as they are. A load error is a document that is
  missing, unreadable or malformed; a format error is a key that is present with a value
  of the wrong type. The specification has no kind for a key that is not there, nor for a
  document that is a scalar.
\<close>

datatype config_error = ConfigLoadError | ConfigFormatError

fun error_kind :: "error \<Rightarrow> config_error option" where
  "error_kind BadFile = Some ConfigLoadError"
| "error_kind ParserException = Some ConfigLoadError"
| "error_kind BadConversion = Some ConfigFormatError"
| "error_kind InvalidNode = None"
| "error_kind BadSubscript = None"

text \<open>
  The stores a program can hold: the constructed one, and what a load (of any build, on any
  file system, with any path) leaves of a store it can hold.
\<close>

inductive reachable :: "real FWParameters \<Rightarrow> bool" where
  constructed: "reachable FWParameters_init"
| loaded: "reachable store \<Longrightarrow>
     reachable (snd (loadAerodynamicParameters NDEBUG fs dec path store))"

definition symmetric3 :: "'d Matrix3d \<Rightarrow> bool" where
  "symmetric3 M = (\<forall>i \<in> {0, 1, 2}. \<forall>j \<in> {0, 1, 2}. coeff M i j = coeff M j i)"

definition range_ok :: "real ControlSurface \<Rightarrow> bool" where
  "range_ok cs = (deflection_min cs \<le> deflection_max cs)"

subsection \<open>Example documents\<close>

text \<open>
  A decoder for five numerals, and a file system with these documents: all 22 keys, in an
  order that is not the order of the READ statements; \<open>alpha_max\<close> alone; the same with
  two more keys, one of them not a scalar; the complete document with a \<open>c_thrust\<close> of two
  elements, and of four, in front, where the lookup finds it first; the first three keys
  well formed and then a \<open>c_drag_beta\<close> that is text; the first two keys, a
  \<open>c_drag_alpha\<close> of four elements and nothing else; a file that is not YAML.
\<close>

definition dec_fixture :: "string \<Rightarrow> real option" where
  "dec_fixture s = map_of [(''0.5'', 0.5), (''1'', 1), (''2'', 2), (''3'', 3), (''4'', 4)] s"

definition complete_entries :: "(yaml \<times> yaml) list" where
  "complete_entries =
     [(Scalar ''c_thrust'', Sequence [Scalar ''1'', Scalar ''2'', Scalar ''3'']),
      (Scalar ''alpha_min'', Scalar ''1''),
      (Scalar ''alpha_max'', Scalar ''2''),
      (Scalar ''c_drag_alpha'', Sequence [Scalar ''1'', Scalar ''2'', Scalar ''3'']),
      (Scalar ''c_drag_beta'', Sequence [Scalar ''2'', Scalar ''1'', Scalar ''3'']),
      (Scalar ''c_drag_delta_ail'', Sequence [Scalar ''3'', Scalar ''2'', Scalar ''1'']),
      (Scalar ''c_drag_delta_flp'', Sequence [Scalar ''3'', Scalar ''1'', Scalar ''2'']),
      (Scalar ''c_side_force_beta'', Sequence [Scalar ''1'', Scalar ''2'']),
      (Scalar ''c_lift_alpha'', Sequence [Scalar ''1'', Scalar ''2'', Scalar ''3'', Scalar ''4'']),
      (Scalar ''c_lift_delta_ail'', Sequence [Scalar ''1'', Scalar ''3'']),
      (Scalar ''c_lift_delta_flp'', Sequence [Scalar ''1'', Scalar ''4'']),
      (Scalar ''c_roll_moment_beta'', Sequence [Scalar ''2'', Scalar ''1'']),
      (Scalar ''c_roll_moment_p'', Sequence [Scalar ''2'', Scalar ''3'']),
      (Scalar ''c_roll_moment_r'', Sequence [Scalar ''2'', Scalar ''4'']),
      (Scalar ''c_roll_moment_delta_ail'', Sequence [Scalar ''3'', Scalar ''1'']),
      (Scalar ''c_roll_moment_delta_flp'', Sequence [Scalar ''3'', Scalar ''2'']),
      (Scalar ''c_pitch_moment_alpha'', Sequence [Scalar ''3'', Scalar ''4'']),
      (Scalar ''c_pitch_moment_q'', Sequence [Scalar ''4'', Scalar ''1'']),
      (Scalar ''c_pitch_moment_delta_elv'', Sequence [Scalar ''4'', Scalar ''2'']),
      (Scalar ''c_yaw_moment_beta'', Sequence [Scalar ''4'', Scalar ''3'']),
      (Scalar ''c_yaw_moment_r'', Sequence [Scalar ''0.5'', Scalar ''1'']),
      (Scalar ''c_yaw_moment_delta_rud'', Sequence [Scalar ''0.5'', Scalar ''2''])]"

definition text_drag_beta_entries :: "(yaml \<times> yaml) list" where
  "text_drag_beta_entries =
     [(Scalar ''c_drag_beta'', Scalar ''none''),
      (Scalar ''c_drag_alpha'', Sequence [Scalar ''1'', Scalar ''2'', Scalar ''3'']),
      (Scalar ''alpha_min'', Scalar ''1''),
      (Scalar ''alpha_max'', Scalar ''2'')]"

definition long_drag_alpha_entries :: "(yaml \<times> yaml) list" where
  "long_drag_alpha_entries =
     [(Scalar ''alpha_max'', Scalar ''2''),
      (Scalar ''alpha_min'', Scalar ''1''),
      (Scalar ''c_drag_alpha'', Sequence [Scalar ''1'', Scalar ''2'', Scalar ''3'', Scalar ''4''])]"

definition fs_fixture :: "string \<Rightarrow> file_state" where
  "fs_fixture path =
     (if path = ''complete.yaml'' then Document (Map (rev complete_entries))
      else if path = ''alpha_max_only.yaml'' then
        Document (Map [(Scalar ''alpha_max'', Scalar ''0.5'')])
      else if path = ''alpha_max_commented.yaml'' then
        Document (Map [(Scalar ''author'', Scalar ''asl''), (Scalar ''alpha_max'', Scalar ''0.5''),
          (Sequence [], Null)])
      else if path = ''short_thrust.yaml'' then
        Document (Map ((Scalar ''c_thrust'', Sequence [Scalar ''1'', Scalar ''2''])
          # complete_entries))
      else if path = ''long_thrust.yaml'' then
        Document (Map ((Scalar ''c_thrust'',
            Sequence [Scalar ''4'', Scalar ''3'', Scalar ''2'', Scalar ''1''])
          # complete_entries))
      else if path = ''text_drag_beta.yaml'' then Document (Map text_drag_beta_entries)
      else if path = ''long_drag_alpha.yaml'' then Document (Map long_drag_alpha_entries)
      else if path = ''garbage.yaml'' then Malformed
      else NoSuchFile)"

section \<open>Properties\<close>

subsection \<open>Construction\<close>

lemmas kDefault_defs =
  kDefaultMass_def kDefaultWingSpan_def kDefaultWingSurface_def kDefaultChordLength_def
  kDefaultInertiaXx_def kDefaultInertiaXy_def kDefaultInertiaXz_def kDefaultInertiaYy_def
  kDefaultInertiaYz_def kDefaultInertiaZz_def kDefaultAlphaMax_def kDefaultAlphaMin_def
  kDefaultCDragAlpha_def kDefaultCDragBeta_def kDefaultCDragDeltaAil_def
  kDefaultCDragDeltaFlp_def kDefaultCSideForceBeta_def kDefaultCLiftAlpha_def
  kDefaultCLiftDeltaAil_def kDefaultCLiftDeltaFlp_def kDefaultCRollMomentBeta_def
  kDefaultCRollMomentP_def kDefaultCRollMomentR_def kDefaultCRollMomentDeltaAil_def
  kDefaultCRollMomentDeltaFlp_def kDefaultCPitchMomentAlpha_def kDefaultCPitchMomentQ_def
  kDefaultCPitchMomentDeltaElv_def kDefaultCYawMomentBeta_def kDefaultCYawMomentR_def
  kDefaultCYawMomentDeltaRud_def kDefaultCThrust_def
  kDefaultControlSurfaceDeflectionMin_def kDefaultControlSurfaceDeflectionMax_def
  kDefaultThrottleChannel_def kDefaultAileronLeftChannel_def kDefaultAileronRightChannel_def
  kDefaultElevatorChannel_def kDefaultFlapChannel_def kDefaultRudderChannel_def

text \<open>
  C4. A freshly constructed \<^verbatim>\<open>FWParameters\<close> has every field equal to its Techpod
  constant: the four rigid-body scalars, the throttle channel, the inertia tensor, the five
  control surfaces with their channels and the default deflections of 20 degrees either
  way, the two angle-of-attack bounds and the twenty coefficient vectors.
\<close>

theorem default_construction:
  "FWParameters_init =
     \<lparr>mass = 2.65, wing_span = 2.59, wing_surface = 0.47, chord_length = 0.18,
      throttle_channel = 5,
      inertia = ((0.16632, 0, 0.0755), (0, 0.3899, 0), (0.0755, 0, 0.5243)),
      aileron_left =
        \<lparr>channel = 4, deflection_min = - (20 * pi / 180), deflection_max = 20 * pi / 180\<rparr>,
      aileron_right =
        \<lparr>channel = 0, deflection_min = - (20 * pi / 180), deflection_max = 20 * pi / 180\<rparr>,
      elevator =
        \<lparr>channel = 1, deflection_min = - (20 * pi / 180), deflection_max = 20 * pi / 180\<rparr>,
      flap =
        \<lparr>channel = 2, deflection_min = - (20 * pi / 180), deflection_max = 20 * pi / 180\<rparr>,
      rudder =
        \<lparr>channel = 3, deflection_min = - (20 * pi / 180), deflection_max = 20 * pi / 180\<rparr>,
      aero_params =
        \<lparr>alpha_max = 0.27, alpha_min = - 0.27,
         c_drag_alpha = (0.1360, - 0.6737, 5.4546),
         c_drag_beta = (0.0195, 0, - 0.3842),
         c_drag_delta_ail = (0.0195, 0.00014205, 0.0000075037),
         c_drag_delta_flp = (0.0195, 0.00027395, 0.0000123),
         c_side_force_beta = (0, - 0.3073),
         c_lift_alpha = (0.2127, 10.8060, - 46.8324, 60.6017),
         c_lift_delta_ail = (0.3304, 0.0048),
         c_lift_delta_flp = (0.3304, 0.0073),
         c_roll_moment_beta = (0, - 0.0154),
         c_roll_moment_p = (0, - 0.1647),
         c_roll_moment_r = (0, 0.0117),
         c_roll_moment_delta_ail = (0, 0.0570),
         c_roll_moment_delta_flp = (0, 0.001),
         c_pitch_moment_alpha = (0.0435, - 2.9690),
         c_pitch_moment_q = (- 0.1173, - 106.1541),
         c_pitch_moment_delta_elv = (- 0.1173, - 6.1308),
         c_yaw_moment_beta = (0, 0.0430),
         c_yaw_moment_r = (0, - 0.0827),
         c_yaw_moment_delta_rud = (0, 0.06),
         c_thrust = (0, 14.7217, 0)\<rparr>\<rparr>"
  unfolding FWParameters_init_def FWAerodynamicParameters_init_def ControlSurface_dflt_def
    ControlSurface_init_def kDefault_defs
  by simp

subsection \<open>The load touches the aerodynamic parameters only\<close>

lemma load_frame:
  "snd (loadAerodynamicParameters NDEBUG fs dec path store) =
     store\<lparr>aero_params := snd (LoadAeroParamsYAML NDEBUG fs dec path (aero_params store))\<rparr>"
  by (simp add: loadAerodynamicParameters_def split: prod.splits)

text \<open>
  C10. Whatever the build, the file system, the path and the store, and whether the load
  completes or throws, the store after the call is the store before it with \<^verbatim>\<open>aero_params_\<close> as the
  method left it: mass, wing span, wing surface, chord length, inertia, the throttle
  channel and the five control surfaces are unchanged.
\<close>

theorem load_changes_aero_params_only:
  "snd (loadAerodynamicParameters NDEBUG fs dec path store) =
     store\<lparr>aero_params := snd (LoadAeroParamsYAML NDEBUG fs dec path (aero_params store))\<rparr>
   \<and> fst (loadAerodynamicParameters NDEBUG fs dec path store) =
       fst (LoadAeroParamsYAML NDEBUG fs dec path (aero_params store))
   \<and> mass (snd (loadAerodynamicParameters NDEBUG fs dec path store)) = mass store
   \<and> wing_span (snd (loadAerodynamicParameters NDEBUG fs dec path store)) = wing_span store
   \<and> wing_surface (snd (loadAerodynamicParameters NDEBUG fs dec path store)) = wing_surface store
   \<and> chord_length (snd (loadAerodynamicParameters NDEBUG fs dec path store)) = chord_length store
   \<and> inertia (snd (loadAerodynamicParameters NDEBUG fs dec path store)) = inertia store
   \<and> throttle_channel (snd (loadAerodynamicParameters NDEBUG fs dec path store)) =
       throttle_channel store
   \<and> aileron_left (snd (loadAerodynamicParameters NDEBUG fs dec path store)) = aileron_left store
   \<and> aileron_right (snd (loadAerodynamicParameters NDEBUG fs dec path store)) = aileron_right store
   \<and> elevator (snd (loadAerodynamicParameters NDEBUG fs dec path store)) = elevator store
   \<and> flap (snd (loadAerodynamicParameters NDEBUG fs dec path store)) = flap store
   \<and> rudder (snd (loadAerodynamicParameters NDEBUG fs dec path store)) = rudder store"
  by (simp add: loadAerodynamicParameters_def split: prod.splits)

subsection \<open>A file that cannot be loaded\<close>

text \<open>
  C3. When the path names no file, or a file that is not YAML, the load fails with an error
  of kind \<open>ConfigLoadError\<close> and the store after the call is the store before it.
\<close>

theorem load_missing_file:
  assumes "fs path = NoSuchFile \<or> fs path = Malformed"
  shows "\<exists>e. loadAerodynamicParameters NDEBUG fs dec path store = (Throws e, store)
           \<and> error_kind e = Some ConfigLoadError"
  using assms
  by (auto simp: loadAerodynamicParameters_def LoadAeroParamsYAML_def LoadFile_def)

theorem load_missing_file_witness:
  "\<exists>e. loadAerodynamicParameters False (\<lambda>p. NoSuchFile) (\<lambda>s. None) ''techpod.yaml''
          FWParameters_init = (Throws e, FWParameters_init)
       \<and> error_kind e = Some ConfigLoadError"
  using load_missing_file
    [of "\<lambda>p. NoSuchFile" "''techpod.yaml''" False "\<lambda>s. None" FWParameters_init]
  by simp

subsection \<open>Invariants of the stores a program can hold\<close>

text \<open>
  C8. The inertia tensor of the constructed store is symmetric, the constructor writing
  each of \<^verbatim>\<open>kDefaultInertiaXy\<close>, \<^verbatim>\<open>kDefaultInertiaXz\<close> and \<^verbatim>\<open>kDefaultInertiaYz\<close> at both
  mirrored positions, and it stays symmetric under any number of loads.
\<close>

theorem inertia_symmetric:
  assumes "reachable store"
  shows "symmetric3 (inertia store)"
  using assms
proof (induction rule: reachable.induct)
  case constructed
  show ?case
    by (simp add: symmetric3_def FWParameters_init_def)
next
  case (loaded store NDEBUG fs dec path)
  then show ?case by (simp add: load_frame)
qed

theorem inertia_symmetric_witness:
  "reachable (snd (loadAerodynamicParameters False (\<lambda>p. NoSuchFile) (\<lambda>s. None)
      ''techpod.yaml'' FWParameters_init))
   \<and> symmetric3 (inertia (snd (loadAerodynamicParameters False (\<lambda>p. NoSuchFile)
        (\<lambda>s. None) ''techpod.yaml'' FWParameters_init)))"
proof -
  have r: "reachable (snd (loadAerodynamicParameters False (\<lambda>p. NoSuchFile) (\<lambda>s. None)
      ''techpod.yaml'' FWParameters_init))"
    by (rule reachable.loaded) (rule reachable.constructed)
  from r inertia_symmetric [OF r] show ?thesis by simp
qed

text \<open>
  C9, as the claim states it, fails: the constructor of \<^verbatim>\<open>ControlSurface\<close> takes the two
  deflections as arguments and stores them unchecked, so \<^verbatim>\<open>ControlSurface(0, 1.0, 0.0)\<close>
  is an instance whose minimum exceeds its maximum.
\<close>

theorem deflection_range_counterexample:
  "\<not> deflection_min (ControlSurface_init 0 (1::real) 0)
       \<le> deflection_max (ControlSurface_init 0 (1::real) 0)"
  by (simp add: ControlSurface_init_def)

lemma range_ok_dflt: "range_ok (ControlSurface_dflt c)"
  by (simp add: range_ok_def ControlSurface_dflt_def ControlSurface_init_def
      kDefaultControlSurfaceDeflectionMin_def kDefaultControlSurfaceDeflectionMax_def)

text \<open>
  C9, amended. A control surface constructed with the default deflection arguments has
  its minimum below its maximum; so have the five control surfaces of a constructed store,
  and they keep it under any number of loads.
\<close>

theorem default_deflection_range:
  assumes "reachable store"
  shows "range_ok (ControlSurface_dflt c)
       \<and> range_ok (aileron_left store) \<and> range_ok (aileron_right store)
       \<and> range_ok (elevator store) \<and> range_ok (flap store) \<and> range_ok (rudder store)"
  using assms
proof (induction rule: reachable.induct)
  case constructed
  show ?case
    by (simp add: FWParameters_init_def range_ok_dflt)
next
  case (loaded store NDEBUG fs dec path)
  then show ?case by (simp add: load_frame)
qed

theorem default_deflection_range_witness:
  "reachable FWParameters_init
   \<and> range_ok (ControlSurface_dflt 4)
   \<and> range_ok (aileron_left FWParameters_init) \<and> range_ok (aileron_right FWParameters_init)
   \<and> range_ok (elevator FWParameters_init) \<and> range_ok (flap FWParameters_init)
   \<and> range_ok (rudder FWParameters_init)"
  using default_deflection_range [OF reachable.constructed, of 4] reachable.constructed
  by simp

subsection \<open>The READ statements, one by one and in sequence\<close>

lemma convert_elements_those:
  "convert_elements dec xs =
     (case those (map (scalar_value dec) xs) of None \<Rightarrow> Inl BadConversion | Some vs \<Rightarrow> Inr vs)"
proof (induction xs)
  case Nil
  show ?case by simp
next
  case (Cons x xs)
  show ?case
    by (cases x) (simp_all add: Cons split: option.splits)
qed

lemma those_length: "those os = Some vs \<Longrightarrow> length vs = length os"
  by (induction os arbitrary: vs) (auto split: option.splits)

lemma acts_param:
  assumes sh: "key_shape k = Some ScalarKey"
    and own: "\<And>v this. field_values (value (\<lambda>_. v) this) k = [v]"
    and frame: "\<And>v this k'. k' \<noteq> k \<Longrightarrow>
      field_values (value (\<lambda>_. v) this) k' = field_values this k'"
  shows "acts k (reading NDEBUG dec node k) (YAMLReadParam dec node k value)"
proof (cases node)
  case Null
  with sh show ?thesis by (simp add: acts_def reading_def YAMLReadParam_def)
next
  case (Scalar s)
  with sh show ?thesis by (simp add: acts_def reading_def YAMLReadParam_def)
next
  case (Sequence xs)
  with sh show ?thesis by (simp add: acts_def reading_def YAMLReadParam_def)
next
  case (Map m)
  show ?thesis
  proof (cases "get m k")
    case None
    with Map sh show ?thesis by (simp add: acts_def reading_def YAMLReadParam_def)
  next
    case (Some v)
    with Map sh show ?thesis
      by (cases v)
        (simp_all add: acts_def reading_def YAMLReadParam_def own frame split: option.splits)
  qed
qed

lemma acts_vector:
  assumes sh: "key_shape k = Some (VectorKey (fst D))"
    and own: "\<And>vs this. fst D \<le> length vs \<Longrightarrow>
      field_values (value (\<lambda>_. snd D vs) this) k = take (fst D) vs"
    and frame: "\<And>v this k'. k' \<noteq> k \<Longrightarrow>
      field_values (value (\<lambda>_. v) this) k' = field_values this k'"
  shows "acts k (reading NDEBUG dec node k) (YAMLReadEigenVector NDEBUG dec node k D value)"
proof (cases node)
  case Null
  with sh show ?thesis by (simp add: acts_def reading_def YAMLReadEigenVector_def)
next
  case (Scalar s)
  with sh show ?thesis by (simp add: acts_def reading_def YAMLReadEigenVector_def)
next
  case (Sequence xs)
  with sh show ?thesis by (simp add: acts_def reading_def YAMLReadEigenVector_def)
next
  case (Map m)
  show ?thesis
  proof (cases "get m k")
    case None
    with Map sh show ?thesis by (simp add: acts_def reading_def YAMLReadEigenVector_def)
  next
    case (Some v)
    show ?thesis
    proof (cases v)
      case (Sequence xs)
      show ?thesis
      proof (cases "those (map (scalar_value dec) xs)")
        case None
        with Map sh Some Sequence show ?thesis
          by (simp add: acts_def reading_def YAMLReadEigenVector_def convert_elements_those)
      next
        case (Some vs)
        with Map sh \<open>get m k = Some v\<close> Sequence show ?thesis
          by (simp add: acts_def reading_def YAMLReadEigenVector_def convert_elements_those
              own frame)
      qed
    qed (use Map sh Some in \<open>simp_all add: acts_def reading_def YAMLReadEigenVector_def\<close>)
  qed
qed

lemma seq_acts_normal:
  assumes "list_all2 (\<lambda>k. acts k (R k)) ks sts" and "distinct ks"
    and "seq sts this = (Normal, this')"
  shows "(\<forall>k \<in> set ks. R k = Written (field_values this' k))
       \<and> (\<forall>k. k \<notin> set ks \<longrightarrow> field_values this' k = field_values this k)"
  using assms
proof (induction ks sts arbitrary: this rule: list_all2_induct)
  case Nil
  then show ?case by simp
next
  case (Cons k ks st sts)
  from Cons.prems(2) obtain this1 where st: "st this = (Normal, this1)"
    and rest: "seq sts this1 = (Normal, this')"
    by (auto split: prod.splits outcome.splits)
  from Cons.hyps(1) st obtain vs where R: "R k = Written vs"
    by (cases "R k") (auto simp: acts_def)
  with Cons.hyps(1) st have own: "field_values this1 k = vs"
    and frame: "\<And>k'. k' \<noteq> k \<Longrightarrow> field_values this1 k' = field_values this k'"
    by (auto simp: acts_def dest: spec [where x = this])
  from Cons.prems(1) have nk: "k \<notin> set ks" and d: "distinct ks" by simp_all
  from Cons.IH [OF d rest]
  have ih1: "\<forall>k' \<in> set ks. R k' = Written (field_values this' k')"
    and ih2: "\<forall>k'. k' \<notin> set ks \<longrightarrow> field_values this' k' = field_values this1 k'"
    by simp_all
  from ih2 nk own R have "R k = Written (field_values this' k)" by simp
  moreover have "\<forall>k'. k' \<notin> set (k # ks) \<longrightarrow> field_values this' k' = field_values this k'"
    using ih2 frame by simp
  ultimately show ?case using ih1 by simp
qed

lemma seq_acts_stop:
  assumes "list_all2 (\<lambda>k. acts k (R k)) ks sts" and "distinct ks"
    and "seq sts this = (r, this')" and "r \<noteq> Normal"
  shows "\<exists>i < length ks. outcome_of (R (ks ! i)) = r
       \<and> (\<forall>j < i. R (ks ! j) = Written (field_values this' (ks ! j)))
       \<and> (\<forall>k. k \<notin> set (take i ks) \<longrightarrow> field_values this' k = field_values this k)"
  using assms
proof (induction ks sts arbitrary: this rule: list_all2_induct)
  case Nil
  then show ?case by simp
next
  case (Cons k ks st sts)
  show ?case
  proof (cases "\<exists>vs. R k = Written vs")
    case False
    with Cons.hyps(1) have "\<And>t. st t = (outcome_of (R k), t)"
      by (cases "R k") (auto simp: acts_def)
    moreover from False have "outcome_of (R k) \<noteq> Normal" by (cases "R k") auto
    ultimately have "r = outcome_of (R k)" "this' = this"
      using Cons.prems(2) by (auto split: outcome.splits)
    then have "outcome_of (R ((k # ks) ! 0)) = r
       \<and> (\<forall>j < 0. R ((k # ks) ! j) = Written (field_values this' ((k # ks) ! j)))
       \<and> (\<forall>k'. k' \<notin> set (take 0 (k # ks)) \<longrightarrow> field_values this' k' = field_values this k')"
      by simp
    then show ?thesis by (intro exI [where x = 0]) simp
  next
    case True
    then obtain vs where W: "R k = Written vs" ..
    with Cons.hyps(1) have ok: "fst (st this) = Normal"
      and own: "field_values (snd (st this)) k = vs"
      and frame: "\<And>k'. k' \<noteq> k \<Longrightarrow> field_values (snd (st this)) k' = field_values this k'"
      by (auto simp: acts_def dest: spec [where x = this])
    define this1 where "this1 = snd (st this)"
    with ok have st: "st this = (Normal, this1)" by (cases "st this") simp
    with Cons.prems(2) have rest: "seq sts this1 = (r, this')" by simp
    from Cons.prems(1) have nk: "k \<notin> set ks" and d: "distinct ks" by simp_all
    from Cons.IH [OF d rest Cons.prems(3)] obtain i where i: "i < length ks"
        "outcome_of (R (ks ! i)) = r"
      and before: "\<forall>j < i. R (ks ! j) = Written (field_values this' (ks ! j))"
      and after: "\<forall>k'. k' \<notin> set (take i ks) \<longrightarrow> field_values this' k' = field_values this1 k'"
      by blast
    from nk have "k \<notin> set (take i ks)" by (auto dest: in_set_takeD)
    with after own W have k: "R k = Written (field_values this' k)" by (simp add: this1_def)
    have b: "\<forall>j < Suc i. R ((k # ks) ! j) = Written (field_values this' ((k # ks) ! j))"
    proof (intro allI impI)
      fix j assume "j < Suc i"
      then show "R ((k # ks) ! j) = Written (field_values this' ((k # ks) ! j))"
        using k before by (cases j) simp_all
    qed
    have a: "\<forall>k'. k' \<notin> set (take (Suc i) (k # ks)) \<longrightarrow>
        field_values this' k' = field_values this k'"
      using after frame by (simp add: this1_def)
    from i a b show ?thesis by (intro exI [where x = "Suc i"]) simp
  qed
qed

lemma seq_acts_total:
  assumes "list_all2 (\<lambda>k. acts k (R k)) ks sts"
  shows "(fst (seq sts this) = Normal) = (\<forall>k \<in> set ks. \<exists>vs. R k = Written vs)"
  using assms
proof (induction ks sts arbitrary: this rule: list_all2_induct)
  case Nil
  then show ?case by simp
next
  case (Cons k ks st sts)
  show ?case
  proof (cases "\<exists>vs. R k = Written vs")
    case False
    with Cons.hyps(1) have "\<And>t. st t = (outcome_of (R k), t)"
      by (cases "R k") (auto simp: acts_def)
    moreover from False have "outcome_of (R k) \<noteq> Normal" by (cases "R k") auto
    ultimately show ?thesis using False by (auto split: outcome.splits)
  next
    case True
    then obtain vs where W: "R k = Written vs" ..
    with Cons.hyps(1) have "fst (st this) = Normal"
      by (auto simp: acts_def dest: spec [where x = this])
    then obtain this1 where "st this = (Normal, this1)" by (cases "st this") simp
    with W Cons.IH [of this1] show ?thesis by simp
  qed
qed

lemma list3_nth: "3 \<le> length vs \<Longrightarrow> [vs ! 0, vs ! Suc 0, vs ! 2] = take 3 vs"
  by (cases vs; simp; cases "tl vs"; simp; cases "tl (tl vs)"; simp)

lemma list2_nth: "2 \<le> length vs \<Longrightarrow> [vs ! 0, vs ! Suc 0] = take 2 vs"
  by (cases vs; simp; cases "tl vs"; simp)

lemma list4_nth: "4 \<le> length vs \<Longrightarrow> [vs ! 0, vs ! Suc 0, vs ! 2, vs ! 3] = take 4 vs"
  by (cases vs; simp; cases "tl vs"; simp; cases "tl (tl vs)"; simp;
      cases "tl (tl (tl vs))"; simp)

lemma distinct_keys: "distinct recognized_keys"
  by (simp add: recognized_keys_def key_shapes_def)

lemma READ_acts:
  "list_all2 (\<lambda>k. acts k (reading NDEBUG dec node k)) recognized_keys
     (READ_statements NDEBUG dec node)"
  unfolding recognized_keys_def key_shapes_def READ_statements_def list.map fst_conv
    list_all2_Cons list_all2_Nil simp_thms
  by (intro conjI acts_param acts_vector;
      simp add: key_shape_def key_shapes_def Vector2d_t_def Vector3d_t_def Vector4d_t_def
        field_values_def list2_nth list3_nth list4_nth cong: if_cong)

lemma load_reads:
  assumes "LoadFile fs path = Inr node"
  shows "LoadAeroParamsYAML NDEBUG fs dec path this = seq (READ_statements NDEBUG dec node) this"
  using assms by (simp add: LoadAeroParamsYAML_def)

lemma nth_notin_take:
  assumes "distinct ks" "i \<le> j" "j < length ks"
  shows "ks ! j \<notin> set (take i ks)"
proof
  assume "ks ! j \<in> set (take i ks)"
  then obtain l where l: "l < length (take i ks)" "take i ks ! l = ks ! j"
    by (auto simp: in_set_conv_nth)
  then have "l < i" "l < length ks" "ks ! l = ks ! j" by simp_all
  with assms have "l = j" by (simp add: nth_eq_iff_index_eq)
  with \<open>l < i\<close> \<open>i \<le> j\<close> show False by simp
qed

lemma recognized_keys_eq:
  "recognized_keys =
     [''alpha_max'', ''alpha_min'', ''c_drag_alpha'', ''c_drag_beta'', ''c_drag_delta_ail'',
      ''c_drag_delta_flp'', ''c_side_force_beta'', ''c_lift_alpha'', ''c_lift_delta_ail'',
      ''c_lift_delta_flp'', ''c_roll_moment_beta'', ''c_roll_moment_p'', ''c_roll_moment_r'',
      ''c_roll_moment_delta_ail'', ''c_roll_moment_delta_flp'', ''c_pitch_moment_alpha'',
      ''c_pitch_moment_q'', ''c_pitch_moment_delta_elv'', ''c_yaw_moment_beta'',
      ''c_yaw_moment_r'', ''c_yaw_moment_delta_rud'', ''c_thrust'']"
  by (simp add: recognized_keys_def key_shapes_def)

lemma load_stops_at:
  assumes "LoadFile fs path = Inr node"
    and "LoadAeroParamsYAML NDEBUG fs dec path this = (r, this')" and "r \<noteq> Normal"
  shows "\<exists>i < length recognized_keys.
           outcome_of (reading NDEBUG dec node (recognized_keys ! i)) = r
         \<and> (\<forall>j < i. reading NDEBUG dec node (recognized_keys ! j)
                = Written (field_values this' (recognized_keys ! j)))
         \<and> (\<forall>j. i \<le> j \<and> j < length recognized_keys \<longrightarrow>
                field_values this' (recognized_keys ! j) = field_values this (recognized_keys ! j))"
proof -
  from assms have "seq (READ_statements NDEBUG dec node) this = (r, this')"
    by (simp add: load_reads)
  from seq_acts_stop [OF READ_acts distinct_keys this assms(3)]
  obtain i where i: "i < length recognized_keys"
      "outcome_of (reading NDEBUG dec node (recognized_keys ! i)) = r"
    and before: "\<forall>j < i. reading NDEBUG dec node (recognized_keys ! j)
                = Written (field_values this' (recognized_keys ! j))"
    and after: "\<forall>k. k \<notin> set (take i recognized_keys) \<longrightarrow> field_values this' k = field_values this k"
    by blast
  from after have "\<forall>j. i \<le> j \<and> j < length recognized_keys \<longrightarrow>
      field_values this' (recognized_keys ! j) = field_values this (recognized_keys ! j)"
    by (simp add: nth_notin_take [OF distinct_keys])
  with i before show ?thesis by blast
qed

lemma load_normal_iff:
  assumes "LoadFile fs path = Inr node"
  shows "(fst (LoadAeroParamsYAML NDEBUG fs dec path this) = Normal)
           = (\<forall>k \<in> set recognized_keys. \<exists>vs. reading NDEBUG dec node k = Written vs)"
  using assms seq_acts_total [OF READ_acts, of NDEBUG dec node this]
  by (simp add: load_reads)

lemma load_normal:
  assumes "LoadFile fs path = Inr node"
    and "LoadAeroParamsYAML NDEBUG fs dec path this = (Normal, this')"
  shows "\<forall>k \<in> set recognized_keys. reading NDEBUG dec node k = Written (field_values this' k)"
proof -
  from assms have "seq (READ_statements NDEBUG dec node) this = (Normal, this')"
    by (simp add: load_reads)
  from seq_acts_normal [OF READ_acts distinct_keys this] show ?thesis by simp
qed

lemma load_stops_first:
  assumes doc: "LoadFile fs path = Inr node"
    and i: "i < length recognized_keys"
    and stop: "\<And>vs. reading NDEBUG dec node (recognized_keys ! i) \<noteq> Written vs"
    and pre: "\<forall>j < i. \<exists>vs. reading NDEBUG dec node (recognized_keys ! j) = Written vs"
    and l: "LoadAeroParamsYAML NDEBUG fs dec path this = (r, this')"
  shows "r = outcome_of (reading NDEBUG dec node (recognized_keys ! i))
       \<and> (\<forall>j < i. reading NDEBUG dec node (recognized_keys ! j)
              = Written (field_values this' (recognized_keys ! j)))
       \<and> (\<forall>j. i \<le> j \<and> j < length recognized_keys \<longrightarrow>
              field_values this' (recognized_keys ! j) = field_values this (recognized_keys ! j))"
proof -
  have "r \<noteq> Normal"
  proof
    assume "r = Normal"
    with l load_normal_iff [OF doc, of NDEBUG dec this]
    have "\<forall>k \<in> set recognized_keys. \<exists>vs. reading NDEBUG dec node k = Written vs"
      by simp
    with i obtain vs where "reading NDEBUG dec node (recognized_keys ! i) = Written vs"
      using nth_mem by blast
    with stop [of vs] show False by simp
  qed
  from load_stops_at [OF doc l this] obtain i' where i': "i' < length recognized_keys"
      "outcome_of (reading NDEBUG dec node (recognized_keys ! i')) = r"
    and before: "\<forall>j < i'. reading NDEBUG dec node (recognized_keys ! j)
                = Written (field_values this' (recognized_keys ! j))"
    and after: "\<forall>j. i' \<le> j \<and> j < length recognized_keys \<longrightarrow>
                field_values this' (recognized_keys ! j) = field_values this (recognized_keys ! j)"
    by blast
  have "\<not> i < i'"
  proof
    assume "i < i'"
    with before have "reading NDEBUG dec node (recognized_keys ! i)
        = Written (field_values this' (recognized_keys ! i))" by simp
    with stop [of "field_values this' (recognized_keys ! i)"] show False by simp
  qed
  moreover have "\<not> i' < i"
  proof
    assume "i' < i"
    with pre obtain vs where "reading NDEBUG dec node (recognized_keys ! i') = Written vs"
      by blast
    with i'(2) \<open>r \<noteq> Normal\<close> show False by simp
  qed
  ultimately have "i' = i" by simp
  with i' before after show ?thesis by simp
qed

lemma key_shape_recognized: "key_shape k = Some sh \<Longrightarrow> k \<in> set recognized_keys"
  unfolding key_shape_def recognized_keys_def
  by (drule map_of_SomeD) force

lemma recognized_key_shape: "k \<in> set recognized_keys \<Longrightarrow> \<exists>sh. key_shape k = Some sh"
  by (cases "map_of key_shapes k")
    (auto simp: map_of_eq_None_iff key_shape_def recognized_keys_def)

lemma key_index:
  assumes "k \<in> set recognized_keys"
  obtains j where "j < length recognized_keys" "recognized_keys ! j = k"
  using assms by (auto simp: in_set_conv_nth)

lemma supplied_reading:
  assumes "supplied dec node k = Some vs"
  shows "reading NDEBUG dec node k = Written vs"
proof -
  from assms obtain sh v where sh: "key_shape k = Some sh" and v: "entry node k = Some v"
    and s: "shaped dec sh v = Some vs"
    by (auto simp: supplied_def split: option.splits)
  from v have n: "\<not> is_scalar node" by (cases node) simp_all
  show ?thesis
  proof (cases sh)
    case ScalarKey
    with s sh v n show ?thesis
      by (cases v) (auto simp: reading_def)
  next
    case (VectorKey n')
    with s sh v n show ?thesis
      by (cases v) (auto simp: reading_def dest: those_length split: if_splits)
  qed
qed

lemma absent_reading:
  assumes "k \<in> set recognized_keys" and "entry node k = None"
  shows "\<exists>e. reading NDEBUG dec node k = Thrown e"
proof -
  from assms(1) obtain sh where "key_shape k = Some sh"
    by (auto dest: recognized_key_shape)
  with assms(2) show ?thesis
    by (cases sh) (auto simp: reading_def)
qed

lemma list2_inj: "(list2 x = list2 y) = (x = y)"
  by (cases x; cases y) simp

lemma list3_inj: "(list3 x = list3 y) = (x = y)"
  by (cases x; cases y) simp

lemma list4_inj: "(list4 x = list4 y) = (x = y)"
  by (cases x; cases y) simp

lemma field_values_ext:
  fixes p q :: "'d FWAerodynamicParameters"
  assumes "\<forall>k \<in> set recognized_keys. field_values p k = field_values q k"
  shows "p = q"
  using assms unfolding recognized_keys_eq
  by (cases p; cases q) (simp add: field_values_def list2_inj list3_inj list4_inj)

lemma thrown_iff: "(outcome_of r = Throws e) = (r = Thrown e)"
  by (cases r) auto

lemma three_fields_frame:
  "k \<noteq> ''alpha_max'' \<Longrightarrow> k \<noteq> ''alpha_min'' \<Longrightarrow> k \<noteq> ''c_drag_alpha'' \<Longrightarrow>
   field_values (this\<lparr>alpha_max := a, alpha_min := b, c_drag_alpha := c\<rparr>) k = field_values this k"
  by (simp add: field_values_def cong: if_cong)

lemma throws_at_c_drag_beta:
  fixes this :: "'d FWAerodynamicParameters"
  assumes w0: "reading b dec node ''alpha_max'' = Written [a]"
    and w1: "reading b dec node ''alpha_min'' = Written [m]"
    and w2: "reading b dec node ''c_drag_alpha'' = Written [x, y, z]"
    and stop: "reading b dec node ''c_drag_beta'' = Thrown e"
  shows "\<exists>i < length recognized_keys.
           reading b dec node (recognized_keys ! i) = Thrown e
         \<and> (\<forall>j < i. reading b dec node (recognized_keys ! j)
                = Written (field_values
                    (this\<lparr>alpha_max := a, alpha_min := m, c_drag_alpha := (x, y, z)\<rparr>)
                    (recognized_keys ! j)))
         \<and> (\<forall>j. i \<le> j \<and> j < length recognized_keys \<longrightarrow>
                field_values (this\<lparr>alpha_max := a, alpha_min := m, c_drag_alpha := (x, y, z)\<rparr>)
                    (recognized_keys ! j)
                  = field_values this (recognized_keys ! j))"
proof (intro exI [where x = 3] conjI allI impI)
  let ?this' = "this\<lparr>alpha_max := a, alpha_min := m, c_drag_alpha := (x, y, z)\<rparr>"
  show "3 < length recognized_keys" by (simp add: recognized_keys_eq)
  show "reading b dec node (recognized_keys ! 3) = Thrown e"
    using stop by (simp add: recognized_keys_eq)
  show "reading b dec node (recognized_keys ! j)
      = Written (field_values ?this' (recognized_keys ! j))" if "j < 3" for j
  proof -
    from that have "j = 0 \<or> j = 1 \<or> j = 2" by auto
    then show ?thesis
    proof (elim disjE)
      assume "j = 0"
      with w0 show ?thesis by (simp add: recognized_keys_eq field_values_def)
    next
      assume "j = 1"
      with w1 show ?thesis by (simp add: recognized_keys_eq field_values_def)
    next
      assume "j = 2"
      with w2 show ?thesis by (simp add: recognized_keys_eq field_values_def)
    qed
  qed
  show "field_values ?this' (recognized_keys ! j) = field_values this (recognized_keys ! j)"
    if "3 \<le> j \<and> j < length recognized_keys" for j
  proof -
    have t: "take 3 recognized_keys = [''alpha_max'', ''alpha_min'', ''c_drag_alpha'']"
      by (simp add: recognized_keys_eq)
    from that nth_notin_take [OF distinct_keys, of 3 j]
    have "recognized_keys ! j \<notin> set (take 3 recognized_keys)" by simp
    then show ?thesis by (simp add: t three_fields_frame)
  qed
qed

lemma long_drag_alpha_aborts:
  "LoadAeroParamsYAML False fs_fixture dec_fixture ''long_drag_alpha.yaml''
     FWAerodynamicParameters_init
   = (Aborts, FWAerodynamicParameters_init\<lparr>alpha_max := 2, alpha_min := 1\<rparr>)"
  by (simp add: LoadAeroParamsYAML_def LoadFile_def fs_fixture_def long_drag_alpha_entries_def
      READ_statements_def YAMLReadParam_def YAMLReadEigenVector_def dec_fixture_def
      Vector3d_t_def)

subsection \<open>A load that fails at a key\<close>

text \<open>
  C6. The keys are read in one fixed order, \<open>alpha_max\<close> first and \<open>c_thrust\<close> last. In
  either build, the load of a document throws an exception and leaves the object in a
  given state exactly when there is a key of that order whose READ statement throws that
  exception on the document, the statement of every earlier key writes its field, with
  the components that the object then holds, and the field of the failing key and of every
  later key is as it was before the call. Nothing is rolled back.
\<close>

theorem load_failure_prefix:
  assumes doc: "LoadFile fs path = Inr node"
  shows "recognized_keys =
     [''alpha_max'', ''alpha_min'', ''c_drag_alpha'', ''c_drag_beta'', ''c_drag_delta_ail'',
      ''c_drag_delta_flp'', ''c_side_force_beta'', ''c_lift_alpha'', ''c_lift_delta_ail'',
      ''c_lift_delta_flp'', ''c_roll_moment_beta'', ''c_roll_moment_p'', ''c_roll_moment_r'',
      ''c_roll_moment_delta_ail'', ''c_roll_moment_delta_flp'', ''c_pitch_moment_alpha'',
      ''c_pitch_moment_q'', ''c_pitch_moment_delta_elv'', ''c_yaw_moment_beta'',
      ''c_yaw_moment_r'', ''c_yaw_moment_delta_rud'', ''c_thrust'']
    \<and> ((LoadAeroParamsYAML NDEBUG fs dec path this = (Throws e, this')) =
        (\<exists>i < length recognized_keys.
           reading NDEBUG dec node (recognized_keys ! i) = Thrown e
         \<and> (\<forall>j < i. reading NDEBUG dec node (recognized_keys ! j)
                = Written (field_values this' (recognized_keys ! j)))
         \<and> (\<forall>j. i \<le> j \<and> j < length recognized_keys \<longrightarrow>
                field_values this' (recognized_keys ! j)
                  = field_values this (recognized_keys ! j))))"
    (is "_ \<and> (?L = ?R)")
proof (intro conjI iffI)
  show "recognized_keys =
     [''alpha_max'', ''alpha_min'', ''c_drag_alpha'', ''c_drag_beta'', ''c_drag_delta_ail'',
      ''c_drag_delta_flp'', ''c_side_force_beta'', ''c_lift_alpha'', ''c_lift_delta_ail'',
      ''c_lift_delta_flp'', ''c_roll_moment_beta'', ''c_roll_moment_p'', ''c_roll_moment_r'',
      ''c_roll_moment_delta_ail'', ''c_roll_moment_delta_flp'', ''c_pitch_moment_alpha'',
      ''c_pitch_moment_q'', ''c_pitch_moment_delta_elv'', ''c_yaw_moment_beta'',
      ''c_yaw_moment_r'', ''c_yaw_moment_delta_rud'', ''c_thrust'']"
    by (rule recognized_keys_eq)
next
  assume l: ?L
  have "Throws e \<noteq> Normal" by simp
  from load_stops_at [OF doc l this] show ?R by (simp add: thrown_iff)
next
  assume ?R
  then obtain i where i: "i < length recognized_keys"
    and stop: "reading NDEBUG dec node (recognized_keys ! i) = Thrown e"
    and before: "\<forall>j < i. reading NDEBUG dec node (recognized_keys ! j)
                = Written (field_values this' (recognized_keys ! j))"
    and after: "\<forall>j. i \<le> j \<and> j < length recognized_keys \<longrightarrow>
                field_values this' (recognized_keys ! j) = field_values this (recognized_keys ! j)"
    by blast
  obtain r this'' where l: "LoadAeroParamsYAML NDEBUG fs dec path this = (r, this'')"
    by (cases "LoadAeroParamsYAML NDEBUG fs dec path this")
  from stop have ns: "\<And>vs. reading NDEBUG dec node (recognized_keys ! i) \<noteq> Written vs"
    by simp
  from before have pre: "\<forall>j < i. \<exists>vs. reading NDEBUG dec node (recognized_keys ! j) = Written vs"
    by blast
  from load_stops_first [OF doc i ns pre l] stop
  have r: "r = Throws e"
    and before': "\<forall>j < i. reading NDEBUG dec node (recognized_keys ! j)
                = Written (field_values this'' (recognized_keys ! j))"
    and after': "\<forall>j. i \<le> j \<and> j < length recognized_keys \<longrightarrow>
                field_values this'' (recognized_keys ! j) = field_values this (recognized_keys ! j)"
    by simp_all
  have "field_values this'' (recognized_keys ! j) = field_values this' (recognized_keys ! j)"
    if "j < length recognized_keys" for j
  proof (cases "j < i")
    case True
    with before before' show ?thesis by (metis reading.inject)
  next
    case False
    with that after after' show ?thesis by simp
  qed
  then have "\<forall>k \<in> set recognized_keys. field_values this'' k = field_values this' k"
    by (auto simp: in_set_conv_nth)
  then have "this'' = this'" by (rule field_values_ext)
  with l r show ?L by simp
qed

theorem load_failure_prefix_witness:
  "LoadFile fs_fixture ''text_drag_beta.yaml'' = Inr (Map text_drag_beta_entries)
   \<and> LoadAeroParamsYAML False fs_fixture dec_fixture ''text_drag_beta.yaml''
        FWAerodynamicParameters_init
      = (Throws BadConversion,
         FWAerodynamicParameters_init\<lparr>alpha_max := 2, alpha_min := 1, c_drag_alpha := (1, 2, 3)\<rparr>)
   \<and> LoadAeroParamsYAML True fs_fixture dec_fixture ''text_drag_beta.yaml''
        FWAerodynamicParameters_init
      = (Throws BadConversion,
         FWAerodynamicParameters_init\<lparr>alpha_max := 2, alpha_min := 1, c_drag_alpha := (1, 2, 3)\<rparr>)
   \<and> LoadFile fs_fixture ''long_drag_alpha.yaml'' = Inr (Map long_drag_alpha_entries)
   \<and> LoadAeroParamsYAML True fs_fixture dec_fixture ''long_drag_alpha.yaml''
        FWAerodynamicParameters_init
      = (Throws InvalidNode,
         FWAerodynamicParameters_init\<lparr>alpha_max := 2, alpha_min := 1, c_drag_alpha := (1, 2, 3)\<rparr>)"
proof -
  let ?this' = "FWAerodynamicParameters_init\<lparr>alpha_max := 2, alpha_min := 1,
    c_drag_alpha := (1, 2, 3)\<rparr>"
  have d: "LoadFile fs_fixture ''text_drag_beta.yaml'' = Inr (Map text_drag_beta_entries)"
    by (simp add: LoadFile_def fs_fixture_def)
  have r: "reading b dec_fixture (Map text_drag_beta_entries) ''alpha_max'' = Written [2]"
      "reading b dec_fixture (Map text_drag_beta_entries) ''alpha_min'' = Written [1]"
      "reading b dec_fixture (Map text_drag_beta_entries) ''c_drag_alpha'' = Written [1, 2, 3]"
      "reading b dec_fixture (Map text_drag_beta_entries) ''c_drag_beta'' = Thrown BadConversion"
    for b
    by (simp_all add: reading_def key_shape_def key_shapes_def text_drag_beta_entries_def
        dec_fixture_def)
  note eq = conjunct2 [OF load_failure_prefix [OF d]]
  have t: "LoadAeroParamsYAML b fs_fixture dec_fixture ''text_drag_beta.yaml''
        FWAerodynamicParameters_init = (Throws BadConversion, ?this')" for b
    by (rule iffD2 [OF eq]) (rule throws_at_c_drag_beta [OF r])
  have d': "LoadFile fs_fixture ''long_drag_alpha.yaml'' = Inr (Map long_drag_alpha_entries)"
    by (simp add: LoadFile_def fs_fixture_def)
  have r': "reading True dec_fixture (Map long_drag_alpha_entries) ''alpha_max'' = Written [2]"
      "reading True dec_fixture (Map long_drag_alpha_entries) ''alpha_min'' = Written [1]"
      "reading True dec_fixture (Map long_drag_alpha_entries) ''c_drag_alpha''
        = Written [1, 2, 3]"
      "reading True dec_fixture (Map long_drag_alpha_entries) ''c_drag_beta''
        = Thrown InvalidNode"
    by (simp_all add: reading_def key_shape_def key_shapes_def long_drag_alpha_entries_def
        dec_fixture_def)
  note eq' = conjunct2 [OF load_failure_prefix [OF d']]
  have t': "LoadAeroParamsYAML True fs_fixture dec_fixture ''long_drag_alpha.yaml''
        FWAerodynamicParameters_init = (Throws InvalidNode, ?this')"
    by (rule iffD2 [OF eq']) (rule throws_at_c_drag_beta [OF r'])
  from d t [of False] t [of True] d' t' show ?thesis by simp
qed

subsection \<open>Absent keys\<close>

text \<open>
  C1, as the claim states it, fails: the readers call \<^verbatim>\<open>as<T>()\<close> on the subscript
  without testing that the key is there, so a document with \<open>alpha_max\<close> alone makes the
  load throw \<^verbatim>\<open>InvalidNode\<close> at \<open>alpha_min\<close>, in either build; the load does not succeed.
\<close>

theorem sparse_merge_counterexample:
  "fst (LoadAeroParamsYAML False fs_fixture dec_fixture ''alpha_max_only.yaml''
         FWAerodynamicParameters_init) = Throws InvalidNode
   \<and> fst (LoadAeroParamsYAML True fs_fixture dec_fixture ''alpha_max_only.yaml''
         FWAerodynamicParameters_init) = Throws InvalidNode"
  by (simp add: LoadAeroParamsYAML_def LoadFile_def fs_fixture_def READ_statements_def
      YAMLReadParam_def dec_fixture_def)

text \<open>
  C1, amended. The load needs every recognized key. A recognized key that the document
  does not have makes the load fail and leaves its field at the value it had; a key
  overwrites its field when the document supplies it and every key before it in the order
  of the READ statements; and a document with \<open>alpha_max\<close> and without \<open>alpha_min\<close>, in
  particular one with \<open>alpha_max\<close> alone, makes the load fail with \<^verbatim>\<open>InvalidNode\<close>
  after it has changed \<open>alpha_max\<close> and nothing else.
\<close>

theorem load_requires_every_key:
  assumes doc: "LoadFile fs path = Inr node"
  shows "(\<forall>k \<in> set recognized_keys. entry node k = None \<longrightarrow>
            fst (LoadAeroParamsYAML NDEBUG fs dec path this) \<noteq> Normal
          \<and> field_values (snd (LoadAeroParamsYAML NDEBUG fs dec path this)) k
              = field_values this k)
       \<and> (\<forall>i < length recognized_keys.
            (\<forall>j \<le> i. supplied dec node (recognized_keys ! j) \<noteq> None) \<longrightarrow>
            supplied dec node (recognized_keys ! i)
              = Some (field_values (snd (LoadAeroParamsYAML NDEBUG fs dec path this))
                  (recognized_keys ! i)))
       \<and> (\<forall>s v. entry node ''alpha_max'' = Some (Scalar s) \<and> dec s = Some v
              \<and> entry node ''alpha_min'' = None \<longrightarrow>
            LoadAeroParamsYAML NDEBUG fs dec path this
              = (Throws InvalidNode, this\<lparr>alpha_max := v\<rparr>))"
proof (intro conjI ballI allI impI)
  fix k assume k: "k \<in> set recognized_keys" and absent: "entry node k = None"
  from absent_reading [OF k absent] obtain e where e: "reading NDEBUG dec node k = Thrown e"
    by blast
  with k load_normal_iff [OF doc, of NDEBUG dec this]
  show n: "fst (LoadAeroParamsYAML NDEBUG fs dec path this) \<noteq> Normal"
    by auto
  obtain r this' where l: "LoadAeroParamsYAML NDEBUG fs dec path this = (r, this')"
    by (cases "LoadAeroParamsYAML NDEBUG fs dec path this")
  with n have "r \<noteq> Normal" by simp
  from load_stops_at [OF doc l this] obtain i where i: "i < length recognized_keys"
    and before: "\<forall>j < i. reading NDEBUG dec node (recognized_keys ! j)
                = Written (field_values this' (recognized_keys ! j))"
    and after: "\<forall>j. i \<le> j \<and> j < length recognized_keys \<longrightarrow>
                field_values this' (recognized_keys ! j) = field_values this (recognized_keys ! j)"
    by blast
  from k obtain j where j: "j < length recognized_keys" "recognized_keys ! j = k"
    by (rule key_index)
  with before e have "\<not> j < i" by auto
  with after j have "field_values this' k = field_values this k" by auto
  with l show "field_values (snd (LoadAeroParamsYAML NDEBUG fs dec path this)) k
      = field_values this k"
    by simp
next
  fix i assume i: "i < length recognized_keys"
    and pre: "\<forall>j \<le> i. supplied dec node (recognized_keys ! j) \<noteq> None"
  obtain r this' where l: "LoadAeroParamsYAML NDEBUG fs dec path this = (r, this')"
    by (cases "LoadAeroParamsYAML NDEBUG fs dec path this")
  from pre have w: "reading NDEBUG dec node (recognized_keys ! j)
      = Written (the (supplied dec node (recognized_keys ! j)))" if "j \<le> i" for j
    using that by (auto intro: supplied_reading)
  have "reading NDEBUG dec node (recognized_keys ! i)
      = Written (field_values this' (recognized_keys ! i))"
  proof (cases "r = Normal")
    case True
    with load_normal [OF doc l [unfolded True]] i show ?thesis by simp
  next
    case False
    from load_stops_at [OF doc l False] obtain i0 where
      i0: "outcome_of (reading NDEBUG dec node (recognized_keys ! i0)) = r"
      and before: "\<forall>j < i0. reading NDEBUG dec node (recognized_keys ! j)
                = Written (field_values this' (recognized_keys ! j))"
      by blast
    have "\<not> i0 \<le> i"
    proof
      assume "i0 \<le> i"
      from w [OF this] i0 False show False by simp
    qed
    with before show ?thesis by simp
  qed
  with w [of i] pre l show "supplied dec node (recognized_keys ! i)
      = Some (field_values (snd (LoadAeroParamsYAML NDEBUG fs dec path this))
          (recognized_keys ! i))"
    by auto
next
  fix s v
  assume a: "entry node ''alpha_max'' = Some (Scalar s) \<and> dec s = Some v
              \<and> entry node ''alpha_min'' = None"
  then obtain m where m: "node = Map m" by (cases node) simp_all
  with a doc show "LoadAeroParamsYAML NDEBUG fs dec path this
      = (Throws InvalidNode, this\<lparr>alpha_max := v\<rparr>)"
    by (simp add: LoadAeroParamsYAML_def READ_statements_def YAMLReadParam_def)
qed

theorem load_requires_every_key_witness:
  "LoadFile fs_fixture ''alpha_max_only.yaml'' = Inr (Map [(Scalar ''alpha_max'', Scalar ''0.5'')])
   \<and> ''alpha_min'' \<in> set recognized_keys
   \<and> entry (Map [(Scalar ''alpha_max'', Scalar ''0.5'')]) ''alpha_min'' = None
   \<and> fst (LoadAeroParamsYAML True fs_fixture dec_fixture ''alpha_max_only.yaml''
        FWAerodynamicParameters_init) \<noteq> Normal
   \<and> field_values (snd (LoadAeroParamsYAML True fs_fixture dec_fixture ''alpha_max_only.yaml''
        FWAerodynamicParameters_init)) ''alpha_min''
      = field_values FWAerodynamicParameters_init ''alpha_min''
   \<and> supplied dec_fixture (Map [(Scalar ''alpha_max'', Scalar ''0.5'')]) ''alpha_max''
      = Some (field_values (snd (LoadAeroParamsYAML True fs_fixture dec_fixture
          ''alpha_max_only.yaml'' FWAerodynamicParameters_init)) ''alpha_max'')
   \<and> LoadAeroParamsYAML True fs_fixture dec_fixture ''alpha_max_only.yaml''
        FWAerodynamicParameters_init
      = (Throws InvalidNode, FWAerodynamicParameters_init\<lparr>alpha_max := 0.5\<rparr>)"
proof -
  let ?node = "Map [(Scalar ''alpha_max'', Scalar ''0.5'')]"
  have d: "LoadFile fs_fixture ''alpha_max_only.yaml'' = Inr ?node"
    by (simp add: LoadFile_def fs_fixture_def)
  have k: "''alpha_min'' \<in> set recognized_keys"
    by (simp add: recognized_keys_eq)
  have a: "entry ?node ''alpha_min'' = None" by simp
  have i: "0 < length recognized_keys" "recognized_keys ! 0 = ''alpha_max''"
    by (simp_all add: recognized_keys_eq)
  have s: "\<forall>j \<le> 0. supplied dec_fixture ?node (recognized_keys ! j) \<noteq> None"
    by (simp add: i supplied_def key_shape_def key_shapes_def dec_fixture_def)
  have m: "entry ?node ''alpha_max'' = Some (Scalar ''0.5'') \<and> dec_fixture ''0.5'' = Some 0.5
      \<and> entry ?node ''alpha_min'' = None"
    by (simp add: dec_fixture_def)
  note t = load_requires_every_key [OF d, of True dec_fixture FWAerodynamicParameters_init]
  from t k a have "fst (LoadAeroParamsYAML True fs_fixture dec_fixture ''alpha_max_only.yaml''
        FWAerodynamicParameters_init) \<noteq> Normal
   \<and> field_values (snd (LoadAeroParamsYAML True fs_fixture dec_fixture ''alpha_max_only.yaml''
        FWAerodynamicParameters_init)) ''alpha_min''
      = field_values FWAerodynamicParameters_init ''alpha_min''"
    by blast
  moreover from t i(1) s have "supplied dec_fixture ?node (recognized_keys ! 0)
      = Some (field_values (snd (LoadAeroParamsYAML True fs_fixture dec_fixture
          ''alpha_max_only.yaml'' FWAerodynamicParameters_init)) (recognized_keys ! 0))"
    by blast
  moreover from t m have "LoadAeroParamsYAML True fs_fixture dec_fixture ''alpha_max_only.yaml''
        FWAerodynamicParameters_init
      = (Throws InvalidNode, FWAerodynamicParameters_init\<lparr>alpha_max := 0.5\<rparr>)"
    by blast
  ultimately show ?thesis using d k a by (simp only: i(2) simp_thms)
qed

subsection \<open>A vector of the wrong length\<close>

text \<open>
  C2. The header does not report a vector of the wrong length to its caller. On a document
  that is complete and well formed but for a \<open>c_thrust\<close> of two elements where the field
  has three, the load with the assertions compiled in aborts the process at the
  \<^verbatim>\<open>assert\<close> of \<^verbatim>\<open>YAMLReadEigenVector\<close>, and the load with the assertions compiled out
  reads a third double past the end of the buffer. With a \<open>c_thrust\<close> of four elements the
  first load aborts as well, and the second one completes, the field holding the first
  three elements. No exception is thrown in any of the four runs.
\<close>

theorem wrong_length_not_reported:
  "fst (LoadAeroParamsYAML False fs_fixture dec_fixture ''short_thrust.yaml''
          FWAerodynamicParameters_init) = Aborts
   \<and> fst (LoadAeroParamsYAML True fs_fixture dec_fixture ''short_thrust.yaml''
          FWAerodynamicParameters_init) = Undefined
   \<and> fst (LoadAeroParamsYAML False fs_fixture dec_fixture ''long_thrust.yaml''
          FWAerodynamicParameters_init) = Aborts
   \<and> fst (LoadAeroParamsYAML True fs_fixture dec_fixture ''long_thrust.yaml''
          FWAerodynamicParameters_init) = Normal
   \<and> c_thrust (snd (LoadAeroParamsYAML True fs_fixture dec_fixture ''long_thrust.yaml''
          FWAerodynamicParameters_init)) = (4, 3, 2)"
  by (simp add: LoadAeroParamsYAML_def LoadFile_def fs_fixture_def complete_entries_def
      READ_statements_def YAMLReadParam_def YAMLReadEigenVector_def dec_fixture_def
      Vector2d_t_def Vector3d_t_def Vector4d_t_def)

subsection \<open>A complete document, in any order\<close>

lemma get_map_of: "get m k = map_of m (Scalar k)"
proof (induction m)
  case Nil
  show ?case by simp
next
  case (Cons kv m)
  obtain key v where kv: "kv = (key, v)" by (cases kv)
  show ?case by (cases key) (auto simp: kv Cons)
qed

lemma get_permutation:
  assumes "mset m' = mset m" and "distinct (map fst m)"
  shows "get m' k = get m k"
proof -
  from assms(1) have "mset (map fst m') = mset (map fst m)" by simp
  with assms(2) have "distinct (map fst m')" by (metis mset_eq_imp_distinct_iff)
  moreover from assms(1) have "set m' = set m" by (rule mset_eq_setD)
  ultimately have "map_of m' = map_of m" using assms(2) by (simp add: map_of_inject_set)
  then show ?thesis by (simp add: get_map_of)
qed

lemma complete_entries_distinct: "distinct (map fst complete_entries)"
  by (simp add: complete_entries_def)

lemma complete_entries_supplied:
  "\<forall>k \<in> set recognized_keys. supplied dec_fixture (Map complete_entries) k \<noteq> None"
  by (simp add: recognized_keys_def key_shapes_def supplied_def key_shape_def
      complete_entries_def dec_fixture_def)

text \<open>
  C5. Let a document body with pairwise distinct keys supply a value of the right shape for
  each of the 22 keys. Loading any reordering of it succeeds, and afterwards each of the 22
  fields holds the components the document supplies for its key.
\<close>

theorem load_complete_document:
  assumes doc: "LoadFile fs path = Inr (Map m')"
    and perm: "mset m' = mset m" and dist: "distinct (map fst m)"
    and complete: "\<forall>k \<in> set recognized_keys. supplied dec (Map m) k \<noteq> None"
  shows "\<exists>this'. LoadAeroParamsYAML NDEBUG fs dec path this = (Normal, this')
           \<and> (\<forall>k \<in> set recognized_keys. supplied dec (Map m) k = Some (field_values this' k))"
proof -
  have same: "supplied dec (Map m') k = supplied dec (Map m) k" for k
    by (simp add: supplied_def get_permutation [OF perm dist])
  have w: "reading NDEBUG dec (Map m') k = Written (the (supplied dec (Map m) k))"
    if "k \<in> set recognized_keys" for k
    using that complete same [of k] by (auto intro: supplied_reading)
  with load_normal_iff [OF doc, of NDEBUG dec this]
  have "fst (LoadAeroParamsYAML NDEBUG fs dec path this) = Normal" by simp
  then obtain this' where l: "LoadAeroParamsYAML NDEBUG fs dec path this = (Normal, this')"
    by (cases "LoadAeroParamsYAML NDEBUG fs dec path this") auto
  have "supplied dec (Map m) k = Some (field_values this' k)"
    if k: "k \<in> set recognized_keys" for k
  proof -
    from load_normal [OF doc l] k
    have "reading NDEBUG dec (Map m') k = Written (field_values this' k)" by simp
    with w [OF k] have "the (supplied dec (Map m) k) = field_values this' k" by simp
    with complete k show ?thesis by auto
  qed
  with l show ?thesis by simp
qed

theorem load_complete_document_witness:
  "fst (LoadAeroParamsYAML False fs_fixture dec_fixture ''complete.yaml''
          FWAerodynamicParameters_init) = Normal
   \<and> map (field_values (snd (LoadAeroParamsYAML False fs_fixture dec_fixture ''complete.yaml''
          FWAerodynamicParameters_init))) recognized_keys
     = [[2], [1], [1, 2, 3], [2, 1, 3], [3, 2, 1], [3, 1, 2], [1, 2], [1, 2, 3, 4], [1, 3],
        [1, 4], [2, 1], [2, 3], [2, 4], [3, 1], [3, 2], [3, 4], [4, 1], [4, 2], [4, 3],
        [0.5, 1], [0.5, 2], [1, 2, 3]]"
proof -
  have d: "LoadFile fs_fixture ''complete.yaml'' = Inr (Map (rev complete_entries))"
    by (simp add: LoadFile_def fs_fixture_def)
  have p: "mset (rev complete_entries) = mset complete_entries" by simp
  from load_complete_document [OF d p complete_entries_distinct complete_entries_supplied,
      of False FWAerodynamicParameters_init]
  obtain this' where l: "LoadAeroParamsYAML False fs_fixture dec_fixture ''complete.yaml''
                 FWAerodynamicParameters_init = (Normal, this')"
    and v: "\<forall>k \<in> set recognized_keys.
                supplied dec_fixture (Map complete_entries) k = Some (field_values this' k)"
    by blast
  from v have "map (field_values this') recognized_keys
      = map (\<lambda>k. the (supplied dec_fixture (Map complete_entries) k)) recognized_keys"
    by simp
  also have "\<dots> = [[2], [1], [1, 2, 3], [2, 1, 3], [3, 2, 1], [3, 1, 2], [1, 2], [1, 2, 3, 4], [1, 3],
        [1, 4], [2, 1], [2, 3], [2, 4], [3, 1], [3, 2], [3, 4], [4, 1], [4, 2], [4, 3],
        [0.5, 1], [0.5, 2], [1, 2, 3]]"
    by (simp add: recognized_keys_def key_shapes_def supplied_def key_shape_def
      complete_entries_def dec_fixture_def)
  finally show ?thesis by (simp add: l)
qed

subsection \<open>Keys that are not recognized\<close>

lemma get_filter_recognized:
  assumes "k \<in> set recognized_keys"
  shows "get (filter (\<lambda>kv. recognized (fst kv)) m) k = get m k"
proof (induction m)
  case Nil
  show ?case by simp
next
  case (Cons kv m)
  obtain key v where kv: "kv = (key, v)" by (cases kv)
  from assms have "equals key k \<Longrightarrow> recognized key"
    by (auto simp: recognized_def list_ex_iff)
  then show ?case by (auto simp: kv Cons)
qed

lemma YAMLReadParam_cong:
  "subscript node' name = subscript node name \<Longrightarrow>
   YAMLReadParam dec node' name value = YAMLReadParam dec node name value"
  by (rule ext) (simp add: YAMLReadParam_def)

lemma YAMLReadEigenVector_cong:
  "subscript node' name = subscript node name \<Longrightarrow>
   YAMLReadEigenVector NDEBUG dec node' name D value
     = YAMLReadEigenVector NDEBUG dec node name D value"
  by (rule ext) (simp add: YAMLReadEigenVector_def)

lemma READ_statements_cong:
  assumes "\<And>k. k \<in> set recognized_keys \<Longrightarrow> subscript node' k = subscript node k"
  shows "READ_statements NDEBUG dec node' = READ_statements NDEBUG dec node"
proof -
  have P: "YAMLReadParam dec node' name tgt = YAMLReadParam dec node name tgt"
    if "name \<in> set recognized_keys" for name
      and tgt :: "('a \<Rightarrow> 'a) \<Rightarrow> 'a FWAerodynamicParameters \<Rightarrow> 'a FWAerodynamicParameters"
    using that by (intro YAMLReadParam_cong assms)
  have V: "YAMLReadEigenVector NDEBUG dec node' name D tgt
      = YAMLReadEigenVector NDEBUG dec node name D tgt"
    if "name \<in> set recognized_keys" for name and D :: "('a, 'v) derived"
      and tgt :: "('v \<Rightarrow> 'v) \<Rightarrow> 'a FWAerodynamicParameters \<Rightarrow> 'a FWAerodynamicParameters"
    using that by (intro YAMLReadEigenVector_cong assms)
  show ?thesis
    unfolding READ_statements_def
    by (simp add: P V recognized_keys_eq)
qed

text \<open>
  C7. Two documents that have the same pairs with recognized keys, in the same order, and
  differ only in pairs whose key is not recognized give the same result: the same outcome
  and the same object. Adding such pairs to a document, anywhere, changes nothing.
\<close>

theorem unrecognized_keys_ignored:
  assumes doc: "LoadFile fs path = Inr (Map m)" and doc': "LoadFile fs' path' = Inr (Map m')"
    and same: "filter (\<lambda>kv. recognized (fst kv)) m' = filter (\<lambda>kv. recognized (fst kv)) m"
  shows "LoadAeroParamsYAML NDEBUG fs' dec path' this = LoadAeroParamsYAML NDEBUG fs dec path this"
proof -
  have "get m' k = get m k" if "k \<in> set recognized_keys" for k
    using get_filter_recognized [OF that, of m] get_filter_recognized [OF that, of m'] same
    by simp
  then have "READ_statements NDEBUG dec (Map m') = READ_statements NDEBUG dec (Map m)"
    by (intro READ_statements_cong) simp
  with doc doc' show ?thesis by (simp add: load_reads)
qed

theorem unrecognized_keys_ignored_witness:
  "LoadFile fs_fixture ''alpha_max_only.yaml'' = Inr (Map [(Scalar ''alpha_max'', Scalar ''0.5'')])
   \<and> LoadFile fs_fixture ''alpha_max_commented.yaml'' =
       Inr (Map [(Scalar ''author'', Scalar ''asl''), (Scalar ''alpha_max'', Scalar ''0.5''),
          (Sequence [], Null)])
   \<and> filter (\<lambda>kv. recognized (fst kv))
        [(Scalar ''author'', Scalar ''asl''), (Scalar ''alpha_max'', Scalar ''0.5''),
          (Sequence [], Null)]
      = filter (\<lambda>kv. recognized (fst kv)) [(Scalar ''alpha_max'', Scalar ''0.5'')]
   \<and> LoadAeroParamsYAML False fs_fixture dec_fixture ''alpha_max_commented.yaml''
        FWAerodynamicParameters_init
      = LoadAeroParamsYAML False fs_fixture dec_fixture ''alpha_max_only.yaml''
          FWAerodynamicParameters_init"
proof -
  have d: "LoadFile fs_fixture ''alpha_max_only.yaml'' = Inr (Map [(Scalar ''alpha_max'', Scalar ''0.5'')])"
    by (simp add: LoadFile_def fs_fixture_def)
  have d': "LoadFile fs_fixture ''alpha_max_commented.yaml'' =
       Inr (Map [(Scalar ''author'', Scalar ''asl''), (Scalar ''alpha_max'', Scalar ''0.5''),
          (Sequence [], Null)])"
    by (simp add: LoadFile_def fs_fixture_def)
  have f: "filter (\<lambda>kv. recognized (fst kv))
        [(Scalar ''author'', Scalar ''asl''), (Scalar ''alpha_max'', Scalar ''0.5''),
          (Sequence [], Null)]
      = filter (\<lambda>kv. recognized (fst kv)) [(Scalar ''alpha_max'', Scalar ''0.5'')]"
    by (simp add: recognized_def recognized_keys_eq)
  from d d' f unrecognized_keys_ignored [OF d d' f] show ?thesis by blast
qed

end
